theory Spec2Isabelle
  imports Main
begin

section \<open>The connect command of kt-connect (pkg/kt/command/connect.go)\<close>

text \<open>
  A shallow embedding of \<^verbatim>\<open>connect.go\<close>. The Go functions mutate the options
  they receive through a pointer, write a pid file, and call the cluster, the registry
  and the transport; here the options and the lock files live in a \<open>world\<close> record that
  every function takes and returns, each call of a collaborator appends an event to the
  world's trace, and a Go \<^verbatim>\<open>error\<close> result is a value of the datatype \<open>error\<close>.
  Info and debug logging is left out; \<^verbatim>\<open>log.Error\<close> calls are events.
\<close>

subsection \<open>Constants of pkg/common\<close>

text \<open>
  The file reads these constants of package \<^verbatim>\<open>common\<close>, whose values are declared
  elsewhere. They are taken as a parameter, a record holding one string per constant.
\<close>

record common =
  ConnectMethodTun :: string
  ConnectMethodSocks :: string
  ControlBy :: string
  KubernetesTool :: string
  KTComponent :: string
  ComponentConnect :: string
  KTName :: string
  KTVersion :: string
  EnvVarLocalDomain :: string
  ClientTunIP :: string
  ServerTunIP :: string

subsection \<open>Options\<close>

text \<open>
  \<^verbatim>\<open>options.DaemonOptions\<close> with the fields the file reads or writes. The proxy
  configuration is a struct declared elsewhere: its type is the parameter \<open>'p\<close>.
\<close>

record ConnectOptions =
  Method :: string
  SocksPort :: int
  TunCidr :: string
  ShareShadow :: bool
  Dump2HostsNamespaces :: "string list"
  LocalDomain :: string
  SourceIP :: string
  DestIP :: string

record 'p RuntimeOptions =
  PidFile :: string
  Shadow :: string
  SSHCM :: string
  ProxyConfig :: 'p
  Dump2Host :: bool

record 'p DaemonOptions =
  Namespace :: string
  Labels :: string
  Debug :: bool
  ConnectOpts :: ConnectOptions
  RuntimeOpts :: "'p RuntimeOptions"

subsection \<open>Errors and events\<close>

text \<open>
  \<open>AlreadyRunning f\<close> is the error of \<^verbatim>\<open>Connect\<close> ("another connect process
  already running with f, exiting"); \<open>InvalidCIDR s\<close> is the parse error of
  \<^verbatim>\<open>net.ParseCIDR\<close> on \<open>s\<close>; \<open>RangeExhausted\<close> is the allocator's error when no
  address is left; \<open>Collaborator m\<close> is an error returned by a collaborator, with its
  message.
\<close>

datatype error =
    AlreadyRunning string
  | InvalidCIDR string
  | RangeExhausted
  | Collaborator string

datatype event =
    EvSetDebugLevel
  | EvAllocateTunIP string
  | EvCombineKubeOpts
  | EvIsDaemonRunning string
  | EvSetUpCloseHandler
  | EvWritePidFile string
  | EvKubernetes
  | EvServiceHosts string
  | EvDumpHosts
  | EvSetGlobalProxy int
  | EvSetHttpProxyEnvironmentVariable int
  | EvLogError string
  | EvGetOrCreateShadow string
  | EvClusterCrids string
  | EvOutbound string string
  | EvWatchInterrupt
  | EvWaitSignal

subsection \<open>Go library functions on strings\<close>

text \<open>
  \<^verbatim>\<open>strings.Split(s, sep)\<close> for a separator of one byte: the pieces of \<open>s\<close>
  between the occurrences of \<open>sep\<close>, in order; the result is never empty.
\<close>

function Split :: "string \<Rightarrow> char \<Rightarrow> string list" where
  "Split s sep =
     (case dropWhile (\<lambda>c. c \<noteq> sep) s of
        [] \<Rightarrow> [s]
      | _ # rest \<Rightarrow> takeWhile (\<lambda>c. c \<noteq> sep) s # Split rest sep)"
  by pat_completeness auto
termination
proof (relation "measure (\<lambda>(s, sep). length s)")
  show "wf (measure (\<lambda>(s, sep). length s))"
    by simp
next
  fix s :: string and sep :: char and x rest
  assume "dropWhile (\<lambda>c. c \<noteq> sep) s = x # rest"
  then have "length (dropWhile (\<lambda>c. c \<noteq> sep) s) = Suc (length rest)"
    by simp
  moreover have "length (dropWhile (\<lambda>c. c \<noteq> sep) s) \<le> length s"
    by (rule length_dropWhile_le)
  ultimately show "((rest, sep), (s, sep)) \<in> measure (\<lambda>(s, sep). length s)"
    by simp
qed

declare Split.simps [simp del]

text \<open>
  \<^verbatim>\<open>strings.ToLower\<close>: on a string of ASCII bytes only, every byte from \<open>A\<close> to
  \<open>Z\<close> moves to its lower-case letter and the others stay. On any other string Go maps
  \<^verbatim>\<open>unicode.ToLower\<close> over the runes; that function is the parameter \<open>unicodeLower\<close>.
\<close>

definition isASCII :: "string \<Rightarrow> bool" where
  "isASCII s = list_all (\<lambda>c. of_char c < (128 :: nat)) s"

definition lowerByte :: "char \<Rightarrow> char" where
  "lowerByte c =
     (if of_char CHR ''A'' \<le> (of_char c :: nat) \<and> (of_char c :: nat) \<le> of_char CHR ''Z''
      then char_of (of_char c + (32 :: nat)) else c)"

definition ToLower :: "(string \<Rightarrow> string) \<Rightarrow> string \<Rightarrow> string" where
  "ToLower unicodeLower s = (if isASCII s then map lowerByte s else unicodeLower s)"

subsection \<open>labels and envs\<close>

text \<open>
  \<^verbatim>\<open>labels(workload, options)\<close>. The Go map is a map \<open>string \<rightharpoonup> string\<close>. The user's
  labels are the entries of the map \<^verbatim>\<open>util.String2Map(options.Labels)\<close>, given as the
  list \<open>userLabels\<close> in the order the \<^verbatim>\<open>range\<close> loop visits them.
\<close>

definition labels :: "common \<Rightarrow> (string \<times> string) list \<Rightarrow> string \<Rightarrow> (string \<rightharpoonup> string)" where
  "labels c userLabels workload =
     (let labels = [ControlBy c \<mapsto> KubernetesTool c,
                    KTComponent c \<mapsto> ComponentConnect c,
                    KTName c \<mapsto> workload];
          labels = fold (\<lambda>(k, v) m. m(k \<mapsto> v)) userLabels labels;
          splits = Split workload CHR ''-''
      in labels(KTVersion c \<mapsto> last splits))"

text \<open>\<^verbatim>\<open>envs(options)\<close>.\<close>

definition envs :: "common \<Rightarrow> 'p DaemonOptions \<Rightarrow> (string \<rightharpoonup> string)" where
  "envs c opts =
     (let envs = Map.empty;
          envs = (if LocalDomain (ConnectOpts opts) \<noteq> ''''
                  then envs(EnvVarLocalDomain c \<mapsto> LocalDomain (ConnectOpts opts)) else envs);
          envs = (if Method (ConnectOpts opts) = ConnectMethodTun c
                  then envs(ClientTunIP c \<mapsto> SourceIP (ConnectOpts opts),
                            ServerTunIP c \<mapsto> DestIP (ConnectOpts opts))
                  else envs)
      in envs)"

subsection \<open>Collaborators and the world\<close>

text \<open>
  The functions the file calls that are declared elsewhere, as one record of parameters:
  the process id (\<^verbatim>\<open>os.Getpid\<close>), the string that \<^verbatim>\<open>util.RandomString\<close> draws in
  this run, \<^verbatim>\<open>util.IsWindows\<close>, \<^verbatim>\<open>util.String2Map\<close>, \<^verbatim>\<open>net.ParseCIDR\<close> and
  \<^verbatim>\<open>net.IP.String\<close>, \<^verbatim>\<open>combineKubeOpts\<close>, and the methods of the cluster, the
  registry and the transport. A Go map they return is the list of its entries, in the
  order a \<^verbatim>\<open>range\<close> loop visits them. A collaborator that can fail returns its error
  message on the left. The type \<open>'c\<close> is the SSH credential's. The collaborators that
  receive the options only read them, but \<^verbatim>\<open>combineKubeOpts\<close>, which returns the
  options it completed, and the two registry functions, which return the proxy
  configuration they were given a pointer to.
\<close>

record IPNet =
  addrBits :: nat
  prefixLen :: nat
  network :: nat

record ('p, 'c) env =
  selfPid :: nat
  RandomString :: "nat \<Rightarrow> string"
  unicodeLower :: "string \<Rightarrow> string"
  IsWindows :: bool
  String2Map :: "string \<Rightarrow> (string \<times> string) list"
  ParseCIDR :: "string \<Rightarrow> IPNet option"
  IPString :: "nat \<Rightarrow> string"
  combineKubeOpts :: "'p DaemonOptions \<Rightarrow> string + 'p DaemonOptions"
  Kubernetes :: "string option"
  ServiceHosts :: "string \<Rightarrow> (string \<times> string) list"
  SetGlobalProxy :: "int \<Rightarrow> 'p \<Rightarrow> string option \<times> 'p"
  SetHttpProxyEnvironmentVariable :: "int \<Rightarrow> 'p \<Rightarrow> string option \<times> 'p"
  GetOrCreateShadow ::
    "string \<Rightarrow> 'p DaemonOptions \<Rightarrow> (string \<rightharpoonup> string) \<Rightarrow> (string \<rightharpoonup> string)
      \<Rightarrow> (string \<rightharpoonup> string) \<Rightarrow> string + (string \<times> string \<times> string \<times> 'c)"
  ClusterCrids :: "string \<Rightarrow> ConnectOptions \<Rightarrow> string + string list"
  Outbound :: "string \<Rightarrow> string \<Rightarrow> 'c \<Rightarrow> string list \<Rightarrow> string option"

text \<open>
  The state a run reads and writes: the options, the lock files (path to the process id
  written there) with the set of live processes, the table last handed to
  \<^verbatim>\<open>util.DumpHosts\<close>, and the trace of the calls made so far.
\<close>

record 'p world =
  options :: "'p DaemonOptions"
  pidFiles :: "string \<rightharpoonup> nat"
  alive :: "nat set"
  dumpedHosts :: "(string \<rightharpoonup> string) option"
  trace :: "event list"

definition emit :: "event \<Rightarrow> 'p world \<Rightarrow> 'p world" where
  "emit ev w = w\<lparr>trace := trace w @ [ev]\<rparr>"

subsection \<open>The exclusivity lock\<close>

text \<open>
  Modelled from the spec: \<^verbatim>\<open>util.IsDaemonRunning\<close> is not in the sources. The lock is
  held when the lock file exists and its owner process is alive.
\<close>

definition IsDaemonRunning :: "string \<Rightarrow> 'p world \<Rightarrow> bool" where
  "IsDaemonRunning pidFile w =
     (case pidFiles w pidFile of None \<Rightarrow> False | Some owner \<Rightarrow> owner \<in> alive w)"

text \<open>
  Modelled from the spec: \<^verbatim>\<open>util.WritePidFile\<close> is not in the sources. It acquires
  the lock by writing the current process identity to the lock file, and fails with
  \<open>AlreadyRunning\<close> if the file exists and its owner process is alive.
\<close>

definition WritePidFile :: "nat \<Rightarrow> string \<Rightarrow> 'p world \<Rightarrow> (error + nat) \<times> 'p world" where
  "WritePidFile self pidFile w =
     (if IsDaemonRunning pidFile w then (Inl (AlreadyRunning pidFile), w)
      else (Inr self, w\<lparr>pidFiles := (pidFiles w)(pidFile \<mapsto> self)\<rparr>))"

subsection \<open>The IP range allocator\<close>

text \<open>
  An \<open>IPNet\<close> is a parsed CIDR: the length of its addresses in bits, the length of
  its prefix, and its network address as a number. Its addresses run from the network
  address to the broadcast address; the usable host addresses are those strictly between.
\<close>

definition netSize :: "IPNet \<Rightarrow> nat" where
  "netSize n = 2 ^ (addrBits n - prefixLen n)"

definition broadcast :: "IPNet \<Rightarrow> nat" where
  "broadcast n = network n + netSize n - 1"

definition usable :: "IPNet \<Rightarrow> nat" where
  "usable n = netSize n - 2"

definition inNetwork :: "IPNet \<Rightarrow> nat \<Rightarrow> bool" where
  "inNetwork n ip = (network n \<le> ip \<and> ip \<le> broadcast n)"

text \<open>
  Modelled from the spec: the packages \<^verbatim>\<open>ipallocator\<close> and \<^verbatim>\<open>allocator\<close> are not
  in the sources. The range is a contiguous bitmap over the network's usable host
  addresses, none allocated at first; \<open>AllocateNext\<close> draws the first address whose
  bit is clear and sets the bit, and fails with \<open>RangeExhausted\<close> when no bit is clear.
\<close>

record Range =
  rangeBase :: nat
  bitmap :: "bool list"

definition NewAllocatorCIDRRange :: "IPNet \<Rightarrow> error + Range" where
  "NewAllocatorCIDRRange n =
     Inr \<lparr>rangeBase = network n + 1, bitmap = replicate (usable n) False\<rparr>"

definition AllocateNext :: "Range \<Rightarrow> error + (nat \<times> Range)" where
  "AllocateNext r =
     (case find (\<lambda>i. \<not> bitmap r ! i) [0..<length (bitmap r)] of
        None \<Rightarrow> Inl RangeExhausted
      | Some i \<Rightarrow> Inr (rangeBase r + i, r\<lparr>bitmap := (bitmap r)[i := True]\<rparr>))"

text \<open>\<^verbatim>\<open>allocateTunIP(cidr)\<close>; a Go return of \<^verbatim>\<open>"", "", err\<close> is \<open>Inl err\<close>.\<close>

definition allocateTunIP :: "('p, 'c) env \<Rightarrow> string \<Rightarrow> error + (string \<times> string)" where
  "allocateTunIP env cidr =
     (case ParseCIDR env cidr of
        None \<Rightarrow> Inl (InvalidCIDR cidr)
      | Some ipnet \<Rightarrow>
          (case NewAllocatorCIDRRange ipnet of
             Inl err \<Rightarrow> Inl err
           | Inr rge \<Rightarrow>
               (case AllocateNext rge of
                  Inl err \<Rightarrow> Inl err
                | Inr (ip1, rge1) \<Rightarrow>
                    (case AllocateNext rge1 of
                       Inl err \<Rightarrow> Inl err
                     | Inr (ip2, rge2) \<Rightarrow> Inr (IPString env ip1, IPString env ip2)))))"

text \<open>\<^verbatim>\<open>CompleteOptions(options)\<close>.\<close>

definition CompleteOptions ::
  "common \<Rightarrow> ('p, 'c) env \<Rightarrow> 'p world \<Rightarrow> error option \<times> 'p world" where
  "CompleteOptions c env w =
     (if Method (ConnectOpts (options w)) = ConnectMethodTun c then
        (let cidr = TunCidr (ConnectOpts (options w));
             w1 = emit (EvAllocateTunIP cidr) w
         in case allocateTunIP env cidr of
              Inl err \<Rightarrow> (Some err, w1)
            | Inr (srcIP, destIP) \<Rightarrow>
                (None, w1\<lparr>options := (options w1)\<lparr>ConnectOpts :=
                   (ConnectOpts (options w1))\<lparr>SourceIP := srcIP, DestIP := destIP\<rparr>\<rparr>\<rparr>))
      else (None, w))"

subsection \<open>The host table\<close>

text \<open>
  The inner loop of \<^verbatim>\<open>setupDump2Host\<close> over the services of one extra namespace:
  an entry whose address is empty or \<^verbatim>\<open>None\<close> is skipped, any other is stored under
  \<^verbatim>\<open>svc + "." + namespace\<close>.
\<close>

fun addNamespaceHosts ::
  "string \<Rightarrow> (string \<times> string) list \<Rightarrow> (string \<rightharpoonup> string) \<Rightarrow> (string \<rightharpoonup> string)" where
  "addNamespaceHosts namespace [] hosts = hosts"
| "addNamespaceHosts namespace ((svc, ip) # singleHosts) hosts =
     (if ip = '''' \<or> ip = ''None'' then addNamespaceHosts namespace singleHosts hosts
      else addNamespaceHosts namespace singleHosts (hosts(svc @ ''.'' @ namespace \<mapsto> ip)))"

text \<open>
  The outer loop over \<^verbatim>\<open>Dump2HostsNamespaces\<close>: the namespace of the options itself
  is skipped.
\<close>

fun dumpNamespaces ::
  "('p, 'c) env \<Rightarrow> string \<Rightarrow> string list \<Rightarrow> (string \<rightharpoonup> string) \<Rightarrow> (string \<rightharpoonup> string)" where
  "dumpNamespaces env primary [] hosts = hosts"
| "dumpNamespaces env primary (namespace # namespaces) hosts =
     (if namespace = primary then dumpNamespaces env primary namespaces hosts
      else dumpNamespaces env primary namespaces
             (addNamespaceHosts namespace (ServiceHosts env namespace) hosts))"

text \<open>
  The table \<^verbatim>\<open>setupDump2Host\<close> hands to \<^verbatim>\<open>util.DumpHosts\<close>: the services of the
  options' namespace as the cluster returns them, then the extra namespaces.
\<close>

definition mergedHosts :: "('p, 'c) env \<Rightarrow> 'p DaemonOptions \<Rightarrow> (string \<rightharpoonup> string)" where
  "mergedHosts env opts =
     (let hosts = map_of (ServiceHosts env (Namespace opts))
      in if length (Dump2HostsNamespaces (ConnectOpts opts)) > 0
         then dumpNamespaces env (Namespace opts) (Dump2HostsNamespaces (ConnectOpts opts)) hosts
         else hosts)"

text \<open>
  \<^verbatim>\<open>setupDump2Host(options, kubernetes)\<close>: the trace gets one \<open>EvServiceHosts\<close> for
  the options' namespace and one for each extra namespace that is not skipped, in order,
  then \<open>EvDumpHosts\<close>.
\<close>

definition setupDump2Host :: "('p, 'c) env \<Rightarrow> 'p world \<Rightarrow> 'p world" where
  "setupDump2Host env w =
     (let opts = options w;
          queried = Namespace opts #
            filter (\<lambda>namespace. namespace \<noteq> Namespace opts)
              (Dump2HostsNamespaces (ConnectOpts opts))
      in w\<lparr>options := opts\<lparr>RuntimeOpts := (RuntimeOpts opts)\<lparr>Dump2Host := True\<rparr>\<rparr>,
           dumpedHosts := Some (mergedHosts env opts),
           trace := trace w @ map EvServiceHosts queried @ [EvDumpHosts]\<rparr>)"

subsection \<open>The shadow\<close>

text \<open>The name \<^verbatim>\<open>getOrCreateShadow\<close> computes first (its variable \<^verbatim>\<open>workload\<close>).\<close>

definition workloadName :: "('p, 'c) env \<Rightarrow> 'p DaemonOptions \<Rightarrow> string" where
  "workloadName env opts =
     (let workload = ''kt-connect-daemon-'' @ ToLower (unicodeLower env) (RandomString env 5)
      in if ShareShadow (ConnectOpts opts) then ''kt-connect-daemon-connect-shared''
         else workload)"

text \<open>
  \<^verbatim>\<open>getOrCreateShadow(options, err, kubernetes)\<close>. The parameter \<open>err\<close> is the
  caller's last error; the function assigns it before it reads it.
\<close>

definition getOrCreateShadow ::
  "common \<Rightarrow> ('p, 'c) env \<Rightarrow> error option \<Rightarrow> 'p world
    \<Rightarrow> (error + (string \<times> string \<times> 'c)) \<times> 'p world" where
  "getOrCreateShadow c env err w =
     (let opts = options w;
          workload = workloadName env opts;
          annotations = Map.empty;
          w1 = emit (EvGetOrCreateShadow workload) w
      in case GetOrCreateShadow env workload opts
                (labels c (String2Map env (Labels opts)) workload) annotations (envs c opts) of
           Inl msg \<Rightarrow> (Inl (Collaborator msg), w1)
         | Inr (endPointIP, podName, sshcm, credential) \<Rightarrow>
             (Inr (endPointIP, podName, credential),
              w1\<lparr>options := opts\<lparr>RuntimeOpts :=
                    (RuntimeOpts opts)\<lparr>Shadow := workload, SSHCM := sshcm\<rparr>\<rparr>\<rparr>))"

subsection \<open>Connecting\<close>

text \<open>
  The block of \<^verbatim>\<open>connectToCluster\<close> for the socks method: both registry calls, each
  failure logged. It returns the value the variable \<^verbatim>\<open>err\<close> holds afterwards.
\<close>

definition setupSocksProxy :: "('p, 'c) env \<Rightarrow> 'p world \<Rightarrow> error option \<times> 'p world" where
  "setupSocksProxy env w =
     (let port = SocksPort (ConnectOpts (options w));
          setProxy = (\<lambda>pc w. w\<lparr>options := (options w)\<lparr>RuntimeOpts :=
                        (RuntimeOpts (options w))\<lparr>ProxyConfig := pc\<rparr>\<rparr>\<rparr>);
          (err1, pc1) = SetGlobalProxy env port (ProxyConfig (RuntimeOpts (options w)));
          w1 = setProxy pc1 (emit (EvSetGlobalProxy port) w);
          w2 = (case err1 of
                  Some msg \<Rightarrow> emit (EvLogError (''Failed to setup global connect proxy: '' @ msg)) w1
                | None \<Rightarrow> w1);
          (err2, pc2) = SetHttpProxyEnvironmentVariable env port pc1;
          w3 = setProxy pc2 (emit (EvSetHttpProxyEnvironmentVariable port) w2);
          w4 = (case err2 of
                  Some msg \<Rightarrow> emit (EvLogError (''Failed to setup global http proxy: '' @ msg)) w3
                | None \<Rightarrow> w3)
      in (map_option Collaborator err2, w4))"

text \<open>
  \<^verbatim>\<open>connectToCluster(cli, options)\<close>, in its two halves. \<open>connectSetup\<close> is the
  function up to the call of \<^verbatim>\<open>getOrCreateShadow\<close>: \<open>Inl err\<close> is an early return
  of \<open>err\<close>, \<open>Inr err\<close> is the value the variable \<^verbatim>\<open>err\<close> holds when the call is
  reached. \<open>connectTunnel\<close> is the function from that call on. \<open>connectToCluster\<close> is
  the whole function.
\<close>

definition connectSetup ::
  "common \<Rightarrow> ('p, 'c) env \<Rightarrow> 'p world \<Rightarrow> (error + error option) \<times> 'p world" where
  "connectSetup c env w =
     (let pidFile = PidFile (RuntimeOpts (options w))
      in case WritePidFile (selfPid env) pidFile (emit (EvWritePidFile pidFile) w) of
           (Inl err, w1) \<Rightarrow> (Inl err, w1)
         | (Inr pid, w1) \<Rightarrow>
             (case Kubernetes env of
                Some msg \<Rightarrow> (Inl (Collaborator msg), emit EvKubernetes w1)
              | None \<Rightarrow>
                  (let w2 = emit EvKubernetes w1;
                       w3 = (if IsWindows env
                                \<or> length (Dump2HostsNamespaces (ConnectOpts (options w2))) > 0
                             then setupDump2Host env w2 else w2)
                   in if Method (ConnectOpts (options w3)) = ConnectMethodSocks c
                      then (case setupSocksProxy env w3 of (err, w4) \<Rightarrow> (Inr err, w4))
                      else (Inr None, w3))))"

definition connectTunnel ::
  "common \<Rightarrow> ('p, 'c) env \<Rightarrow> error option \<Rightarrow> 'p world \<Rightarrow> error option \<times> 'p world" where
  "connectTunnel c env err w =
     (case getOrCreateShadow c env err w of
        (Inl err, w5) \<Rightarrow> (Some err, w5)
      | (Inr (endPointIP, podName, credential), w5) \<Rightarrow>
          (let namespace = Namespace (options w5);
               w6 = emit (EvClusterCrids namespace) w5
           in case ClusterCrids env namespace (ConnectOpts (options w5)) of
                Inl msg \<Rightarrow> (Some (Collaborator msg), w6)
              | Inr cidrs \<Rightarrow>
                  (map_option Collaborator
                     (Outbound env podName endPointIP credential cidrs),
                   emit (EvOutbound podName endPointIP) w6)))"

definition connectToCluster ::
  "common \<Rightarrow> ('p, 'c) env \<Rightarrow> 'p world \<Rightarrow> error option \<times> 'p world" where
  "connectToCluster c env w =
     (case connectSetup c env w of
        (Inl err, w1) \<Rightarrow> (Some err, w1)
      | (Inr err, w4) \<Rightarrow> connectTunnel c env err w4)"

text \<open>
  \<^verbatim>\<open>Connect(cli, options)\<close>. After a successful \<^verbatim>\<open>connectToCluster\<close> it starts the
  watcher of the background process and waits for the signal of the close handler;
  both are events here.
\<close>

definition Connect ::
  "common \<Rightarrow> ('p, 'c) env \<Rightarrow> 'p world \<Rightarrow> error option \<times> 'p world" where
  "Connect c env w =
     (let pidFile = PidFile (RuntimeOpts (options w));
          w1 = emit (EvIsDaemonRunning pidFile) w
      in if IsDaemonRunning pidFile w then (Some (AlreadyRunning pidFile), w1)
         else (case connectToCluster c env (emit EvSetUpCloseHandler w1) of
                 (Some err, w2) \<Rightarrow> (Some err, w2)
               | (None, w2) \<Rightarrow> (None, emit EvWaitSignal (emit EvWatchInterrupt w2))))"

text \<open>
  The \<^verbatim>\<open>Action\<close> closure of \<^verbatim>\<open>newConnectCommand\<close>: what the connect command runs.
\<close>

definition connectAction ::
  "common \<Rightarrow> ('p, 'c) env \<Rightarrow> 'p world \<Rightarrow> error option \<times> 'p world" where
  "connectAction c env w =
     (let w0 = (if Debug (options w) then emit EvSetDebugLevel w else w)
      in case CompleteOptions c env w0 of
           (Some err, w1) \<Rightarrow> (Some err, w1)
         | (None, w1) \<Rightarrow>
             (let w2 = emit EvCombineKubeOpts w1
              in case combineKubeOpts env (options w1) of
                   Inl msg \<Rightarrow> (Some (Collaborator msg), w2)
                 | Inr opts \<Rightarrow> Connect c env (w2\<lparr>options := opts\<rparr>)))"

subsection \<open>The final segment of a name\<close>

text \<open>
  What the specification calls the final hyphen-delimited segment of a name, in its own
  words rather than the code's: the longest suffix of the name that holds no hyphen.
\<close>

definition finalSegment :: "string \<Rightarrow> string" where
  "finalSegment s = rev (takeWhile (\<lambda>ch. ch \<noteq> CHR ''-'') (rev s))"

subsection \<open>Sample inputs\<close>

text \<open>
  Concrete values at which the theorems below are instantiated. The strings of
  \<open>sampleCommon\<close> are sample values of the constants, pairwise distinct.
\<close>

definition sampleCommon :: common where
  "sampleCommon =
     \<lparr>ConnectMethodTun = ''tun'', ConnectMethodSocks = ''socks5'',
      ControlBy = ''control-by'', KubernetesTool = ''kt'',
      KTComponent = ''kt-component'', ComponentConnect = ''connect'',
      KTName = ''kt-name'', KTVersion = ''kt-version'',
      EnvVarLocalDomain = ''LOCAL_DOMAIN'',
      ClientTunIP = ''CLIENT_TUN_IP'', ServerTunIP = ''SERVER_TUN_IP''\<rparr>"

definition sampleOptions :: "unit DaemonOptions" where
  "sampleOptions =
     \<lparr>Namespace = ''ns1'', Labels = [], Debug = False,
      ConnectOpts =
        \<lparr>Method = ''tun'', SocksPort = 2223, TunCidr = ''10.1.1.0/30'',
         ShareShadow = True, Dump2HostsNamespaces = [''ns2''],
         LocalDomain = ''cluster.local'', SourceIP = ''10.1.1.1'', DestIP = ''10.1.1.2''\<rparr>,
      RuntimeOpts =
        \<lparr>PidFile = ''/tmp/kt.pid'', Shadow = [], SSHCM = [], ProxyConfig = (),
         Dump2Host = False\<rparr>\<rparr>"

definition socksOptions :: "unit DaemonOptions" where
  "socksOptions =
     sampleOptions\<lparr>ConnectOpts := (ConnectOpts sampleOptions)
       \<lparr>Method := ''socks5'', ShareShadow := False, LocalDomain := []\<rparr>\<rparr>"

text \<open>
  The dotted-decimal form of an IPv4 address given as a number, the sample value of
  \<open>IPString\<close>.
\<close>

definition digitChar :: "nat \<Rightarrow> char" where
  "digitChar d = char_of (48 + d)"

definition octetString :: "nat \<Rightarrow> string" where
  "octetString n =
     (if n < 10 then [digitChar n]
      else if n < 100 then [digitChar (n div 10), digitChar (n mod 10)]
      else [digitChar (n div 100), digitChar (n div 10 mod 10), digitChar (n mod 10)])"

definition ipv4String :: "nat \<Rightarrow> string" where
  "ipv4String ip =
     octetString (ip div 16777216 mod 256) @ ''.'' @ octetString (ip div 65536 mod 256)
       @ ''.'' @ octetString (ip div 256 mod 256) @ ''.'' @ octetString (ip mod 256)"

definition sampleEnv :: "(unit, unit) env" where
  "sampleEnv =
     \<lparr>selfPid = 42,
      RandomString = (\<lambda>n. take n ''AbCdEfGh''),
      unicodeLower = (\<lambda>s. s),
      IsWindows = False,
      String2Map = (\<lambda>s. []),
      ParseCIDR = (\<lambda>s. if s = ''10.1.1.0/30''
                        then Some \<lparr>addrBits = 32, prefixLen = 30, network = 167837952\<rparr>
                        else if s = ''10.1.1.7/32''
                        then Some \<lparr>addrBits = 32, prefixLen = 32, network = 167837959\<rparr>
                        else None),
      IPString = ipv4String,
      combineKubeOpts = Inr,
      Kubernetes = None,
      ServiceHosts = (\<lambda>namespace.
         if namespace = ''ns1'' then [(''svcA'', ''1.1.1.1'')]
         else if namespace = ''ns2'' then [(''svcA'', ''2.2.2.2''), (''svcB'', [])]
         else []),
      SetGlobalProxy = (\<lambda>port pc. (Some ''access denied'', pc)),
      SetHttpProxyEnvironmentVariable = (\<lambda>port pc. (Some ''access denied'', pc)),
      GetOrCreateShadow = (\<lambda>workload opts labels annotations envs.
         Inr (''172.16.0.9'', workload @ ''-pod'', workload @ ''-cm'', ())),
      ClusterCrids = (\<lambda>namespace copts. Inr [''172.16.0.0/16'']),
      Outbound = (\<lambda>podName endPointIP credential cidrs. None)\<rparr>"

definition sampleWorld :: "unit world" where
  "sampleWorld =
     \<lparr>options = sampleOptions, pidFiles = Map.empty, alive = {}, dumpedHosts = None,
      trace = []\<rparr>"

definition socksWorld :: "unit world" where
  "socksWorld = sampleWorld\<lparr>options := socksOptions\<rparr>"

definition exhaustedWorld :: "unit world" where
  "exhaustedWorld =
     sampleWorld\<lparr>options := sampleOptions\<lparr>ConnectOpts :=
       (ConnectOpts sampleOptions)\<lparr>TunCidr := ''10.1.1.7/32''\<rparr>\<rparr>\<rparr>"

subsection \<open>The order of the steps\<close>

text \<open>
  The place of each event in the order in which the source performs the steps of the
  connect command: the debug level, the TUN addresses, the cluster options, the check of
  the lock, the close handler, the pid file, the handle of the cluster, the host table,
  the two proxies with their logs, the shadow, the CIDRs of the cluster, the hand-off to
  the transport, and the wait for a signal.
\<close>

fun stepOrder :: "event \<Rightarrow> nat" where
  "stepOrder EvSetDebugLevel = 0"
| "stepOrder (EvAllocateTunIP cidr) = 1"
| "stepOrder EvCombineKubeOpts = 2"
| "stepOrder (EvIsDaemonRunning pidFile) = 3"
| "stepOrder EvSetUpCloseHandler = 4"
| "stepOrder (EvWritePidFile pidFile) = 5"
| "stepOrder EvKubernetes = 6"
| "stepOrder (EvServiceHosts namespace) = 7"
| "stepOrder EvDumpHosts = 8"
| "stepOrder (EvSetGlobalProxy port) = 9"
| "stepOrder (EvLogError msg) = 10"
| "stepOrder (EvSetHttpProxyEnvironmentVariable port) = 10"
| "stepOrder (EvGetOrCreateShadow workload) = 11"
| "stepOrder (EvClusterCrids namespace) = 12"
| "stepOrder (EvOutbound podName endPointIP) = 13"
| "stepOrder EvWatchInterrupt = 14"
| "stepOrder EvWaitSignal = 15"

text \<open>
  A run of events is in step order between two places when the places of its events
  never decrease and all lie between the two.
\<close>

definition inOrder :: "nat \<Rightarrow> nat \<Rightarrow> event list \<Rightarrow> bool" where
  "inOrder lo hi evs =
     (sorted (map stepOrder evs) \<and> list_all (\<lambda>ev. lo \<le> stepOrder ev \<and> stepOrder ev \<le> hi) evs)"

text \<open>The events a run has added to the trace of the world it started from.\<close>

definition newEvents :: "'p world \<Rightarrow> 'p world \<Rightarrow> event list" where
  "newEvents w w' = drop (length (trace w)) (trace w')"

subsection \<open>The lock released, and further sample inputs\<close>

text \<open>
  Modelled from the spec: the owner of the lock releases it by removing the lock file.
\<close>

definition removePidFile :: "string \<Rightarrow> 'p world \<Rightarrow> 'p world" where
  "removePidFile pidFile w = w\<lparr>pidFiles := (pidFiles w)(pidFile := None)\<rparr>"

text \<open>
  The sample options before any address has been allocated, and the world of these
  options in which the lock is held by the live process 7.
\<close>

definition freshOptions :: "unit DaemonOptions" where
  "freshOptions =
     sampleOptions\<lparr>ConnectOpts := (ConnectOpts sampleOptions)\<lparr>SourceIP := [], DestIP := []\<rparr>\<rparr>"

definition heldWorld :: "unit world" where
  "heldWorld =
     sampleWorld\<lparr>options := freshOptions, pidFiles := [''/tmp/kt.pid'' \<mapsto> 7], alive := {7}\<rparr>"

text \<open>The sample collaborators with a cluster that refuses to create the shadow.\<close>

definition failingEnv :: "(unit, unit) env" where
  "failingEnv =
     sampleEnv\<lparr>GetOrCreateShadow :=
       (\<lambda>workload opts labels annotations envs. Inl ''quota exceeded'')\<rparr>"

subsection \<open>Intermediate states of connectToCluster\<close>

text \<open>
  The events a registry call adds to the log: the line \<^verbatim>\<open>log.Error().Msgf\<close> writes
  when the call has failed, nothing otherwise.
\<close>

definition proxyLog :: "string \<Rightarrow> string option \<Rightarrow> event list" where
  "proxyLog what err = (case err of Some msg \<Rightarrow> [EvLogError (what @ msg)] | None \<Rightarrow> [])"

text \<open>
  The world of \<^verbatim>\<open>connectToCluster\<close> after \<^verbatim>\<open>util.WritePidFile\<close> has succeeded, and
  the world after the block that calls \<^verbatim>\<open>setupDump2Host\<close>, when the handle of the
  cluster has been obtained.
\<close>

definition pidWritten :: "('p, 'c) env \<Rightarrow> 'p world \<Rightarrow> 'p world" where
  "pidWritten env w =
     (emit (EvWritePidFile (PidFile (RuntimeOpts (options w)))) w)
       \<lparr>pidFiles := (pidFiles w)(PidFile (RuntimeOpts (options w)) \<mapsto> selfPid env)\<rparr>"

definition hostsDumped :: "('p, 'c) env \<Rightarrow> 'p world \<Rightarrow> 'p world" where
  "hostsDumped env w =
     (let w2 = emit EvKubernetes (pidWritten env w)
      in if IsWindows env \<or> length (Dump2HostsNamespaces (ConnectOpts (options w2))) > 0
         then setupDump2Host env w2 else w2)"

text \<open>
  The world of the \<^verbatim>\<open>Action\<close> closure after it has set the log level, and the world
  after its call of \<^verbatim>\<open>CompleteOptions\<close>.
\<close>

definition levelSet :: "'p world \<Rightarrow> 'p world" where
  "levelSet w = (if Debug (options w) then emit EvSetDebugLevel w else w)"

definition optionsCompleted :: "common \<Rightarrow> ('p, 'c) env \<Rightarrow> 'p world \<Rightarrow> 'p world" where
  "optionsCompleted c env w = snd (CompleteOptions c env (levelSet w))"

text \<open>
  The sample collaborators with a cluster whose namespace \<^verbatim>\<open>ns1\<close> holds a service
  without cluster address (the address \<^verbatim>\<open>None\<close>) and one with the empty address.
\<close>

definition headlessEnv :: "(unit, unit) env" where
  "headlessEnv =
     sampleEnv\<lparr>ServiceHosts := (\<lambda>namespace.
       if namespace = ''ns1'' then [(''svcA'', ''None''), (''svcC'', [])]
       else if namespace = ''ns2'' then [(''svcA'', ''2.2.2.2''), (''svcB'', [])]
       else [])\<rparr>"

section \<open>Properties\<close>

subsection \<open>Environment variables of the shadow (C10)\<close>

text \<open>
  C10. The map \<^verbatim>\<open>envs\<close> builds for the shadow holds the local-domain variable
  exactly when \<open>LocalDomain\<close> is not empty, and holds the client and the server TUN
  address variables exactly when the method is the TUN method; with any other method it
  holds no key but the local-domain variable. Where a variable is present its value is
  the option it stands for. The three variable names are distinct constants.
\<close>

theorem envs_variables:
  assumes "EnvVarLocalDomain c \<noteq> ClientTunIP c"
    and "EnvVarLocalDomain c \<noteq> ServerTunIP c"
    and "ClientTunIP c \<noteq> ServerTunIP c"
  shows "(EnvVarLocalDomain c \<in> dom (envs c opts)) = (LocalDomain (ConnectOpts opts) \<noteq> [])
    \<and> (ClientTunIP c \<in> dom (envs c opts)) = (Method (ConnectOpts opts) = ConnectMethodTun c)
    \<and> (ServerTunIP c \<in> dom (envs c opts)) = (Method (ConnectOpts opts) = ConnectMethodTun c)
    \<and> (Method (ConnectOpts opts) \<noteq> ConnectMethodTun c \<longrightarrow>
          dom (envs c opts) \<subseteq> {EnvVarLocalDomain c})
    \<and> (Method (ConnectOpts opts) = ConnectMethodTun c \<longrightarrow>
          envs c opts (ClientTunIP c) = Some (SourceIP (ConnectOpts opts))
          \<and> envs c opts (ServerTunIP c) = Some (DestIP (ConnectOpts opts)))
    \<and> (LocalDomain (ConnectOpts opts) \<noteq> [] \<longrightarrow>
          envs c opts (EnvVarLocalDomain c) = Some (LocalDomain (ConnectOpts opts)))"
  using assms by (auto simp: envs_def Let_def split: if_splits)

theorem envs_variables_witness:
  "EnvVarLocalDomain sampleCommon \<noteq> ClientTunIP sampleCommon
   \<and> EnvVarLocalDomain sampleCommon \<noteq> ServerTunIP sampleCommon
   \<and> ClientTunIP sampleCommon \<noteq> ServerTunIP sampleCommon
   \<and> Method (ConnectOpts sampleOptions) = ConnectMethodTun sampleCommon
   \<and> LocalDomain (ConnectOpts sampleOptions) \<noteq> []
   \<and> envs sampleCommon sampleOptions ''LOCAL_DOMAIN'' = Some ''cluster.local''
   \<and> envs sampleCommon sampleOptions ''CLIENT_TUN_IP'' = Some ''10.1.1.1''
   \<and> envs sampleCommon sampleOptions ''SERVER_TUN_IP'' = Some ''10.1.1.2''
   \<and> Method (ConnectOpts socksOptions) \<noteq> ConnectMethodTun sampleCommon
   \<and> LocalDomain (ConnectOpts socksOptions) = []
   \<and> dom (envs sampleCommon socksOptions) \<subseteq> {''LOCAL_DOMAIN''}
   \<and> ''LOCAL_DOMAIN'' \<notin> dom (envs sampleCommon socksOptions)
   \<and> ''CLIENT_TUN_IP'' \<notin> dom (envs sampleCommon socksOptions)
   \<and> ''SERVER_TUN_IP'' \<notin> dom (envs sampleCommon socksOptions)"
  using envs_variables [of sampleCommon sampleOptions]
    envs_variables [of sampleCommon socksOptions]
  by (simp add: sampleCommon_def sampleOptions_def socksOptions_def)

subsection \<open>Auxiliary facts about the library functions\<close>

lemma Split_not_Nil: "Split s sep \<noteq> []"
  by (subst Split.simps) (simp split: list.splits)

lemma last_Split: "last (Split s sep) = rev (takeWhile (\<lambda>ch. ch \<noteq> sep) (rev s))"
proof (induction s sep rule: Split.induct)
  case (1 s sep)
  show ?case
  proof (cases "dropWhile (\<lambda>c. c \<noteq> sep) s")
    case Nil
    then have "\<forall>ch \<in> set s. ch \<noteq> sep"
      by (simp only: dropWhile_eq_Nil_conv)
    then have "takeWhile (\<lambda>ch. ch \<noteq> sep) (rev s) = rev s"
      by (simp only: takeWhile_eq_all_conv set_rev)
    moreover have "Split s sep = [s]"
      by (subst Split.simps) (simp only: Nil list.case)
    ultimately show ?thesis
      by (simp only: last.simps rev_rev_ident simp_thms if_True)
  next
    case (Cons x rest)
    then have x: "x = sep"
      using hd_dropWhile [of "\<lambda>c. c \<noteq> sep" s]
      by (simp only: list.sel list.distinct not_not simp_thms)
    have "takeWhile (\<lambda>c. c \<noteq> sep) s @ dropWhile (\<lambda>c. c \<noteq> sep) s = s"
      by (rule takeWhile_dropWhile_id)
    then have "rev s = rev (takeWhile (\<lambda>c. c \<noteq> sep) s @ sep # rest)"
      using Cons x by simp
    then have s: "rev s = rev rest @ sep # rev (takeWhile (\<lambda>c. c \<noteq> sep) s)"
      by simp
    have "takeWhile (\<lambda>ch. ch \<noteq> sep) (rev s) = takeWhile (\<lambda>ch. ch \<noteq> sep) (rev rest)"
      unfolding s by (rule takeWhile_tail) simp
    moreover have "Split s sep = takeWhile (\<lambda>c. c \<noteq> sep) s # Split rest sep"
      by (subst Split.simps) (simp only: Cons list.case)
    then have "last (Split s sep) = last (Split rest sep)"
      using Split_not_Nil [of rest sep] by simp
    ultimately show ?thesis
      using "1.IH" [OF Cons] by (simp only:)
  qed
qed

lemma fold_update: "fold (\<lambda>(k, v) m. m(k \<mapsto> v)) ul m = m ++ map_of (rev ul)"
  by (induction ul arbitrary: m) (auto simp: map_add_upd_left)

lemma map_of_rev_distinct:
  assumes "distinct (map fst ul)"
  shows "map_of (rev ul) = map_of ul"
proof -
  have "distinct (rev (map fst ul))"
    using assms by (simp only: distinct_rev)
  then have "distinct (map fst (rev ul))"
    by (simp only: rev_map)
  then show ?thesis
    using assms by (simp only: map_of_inject_set set_rev)
qed

lemma length_ToLower: "isASCII s \<Longrightarrow> length (ToLower u s) = length s"
  by (simp add: ToLower_def)

lemma getOrCreateShadow_trace:
  "trace (snd (getOrCreateShadow c env err w)) =
     trace w @ [EvGetOrCreateShadow (workloadName env (options w))]"
  by (simp add: getOrCreateShadow_def emit_def Let_def split: sum.splits prod.splits)

lemma getOrCreateShadow_Shadow:
  "fst (getOrCreateShadow c env err w) = Inr r \<Longrightarrow>
     Shadow (RuntimeOpts (options (snd (getOrCreateShadow c env err w)))) =
       workloadName env (options w)"
  by (auto simp add: getOrCreateShadow_def emit_def Let_def split: sum.splits prod.splits)

lemma getOrCreateShadow_call:
  "fst (getOrCreateShadow c env err w) =
     (case GetOrCreateShadow env (workloadName env (options w)) (options w)
             (labels c (String2Map env (Labels (options w))) (workloadName env (options w)))
             Map.empty (envs c (options w)) of
        Inl msg \<Rightarrow> Inl (Collaborator msg)
      | Inr (endPointIP, podName, sshcm, credential) \<Rightarrow> Inr (endPointIP, podName, credential))"
  by (simp add: getOrCreateShadow_def Let_def split: sum.splits prod.splits)

lemma getOrCreateShadow_SSHCM:
  "GetOrCreateShadow env (workloadName env (options w)) (options w)
       (labels c (String2Map env (Labels (options w))) (workloadName env (options w)))
       Map.empty (envs c (options w)) = Inr (endPointIP, podName, sshcm, credential) \<Longrightarrow>
   SSHCM (RuntimeOpts (options (snd (getOrCreateShadow c env err w)))) = sshcm"
  by (simp add: getOrCreateShadow_def Let_def)

subsection \<open>The name of the shadow (C6)\<close>

text \<open>
  C6. Two runs of \<^verbatim>\<open>getOrCreateShadow\<close> that both share the shadow compute the same
  workload name, the fixed string \<^verbatim>\<open>kt-connect-daemon-connect-shared\<close>, whatever the
  random source, the collaborators and the rest of the options are. Without sharing the
  name is the prefix \<^verbatim>\<open>kt-connect-daemon-\<close> followed by the lower-cased string that
  \<^verbatim>\<open>util.RandomString(5)\<close> drew, which has five characters when that string has five
  ASCII characters. That name is the one under which the shadow is requested: the result
  of \<^verbatim>\<open>getOrCreateShadow\<close> is the cluster's answer to \<^verbatim>\<open>GetOrCreateShadow\<close> called
  with this name, the options, the labels built for this name, no annotation and the
  environment variables. When the call succeeds, the name is recorded in \<open>Shadow\<close> and
  the configuration reference the cluster returned in \<open>SSHCM\<close>.
\<close>

theorem workload_naming:
  "(ShareShadow (ConnectOpts (options w)) \<and> ShareShadow (ConnectOpts (options w')) \<longrightarrow>
      workloadName env (options w) = workloadName env' (options w')
      \<and> workloadName env (options w) = ''kt-connect-daemon-connect-shared'')
   \<and> (\<not> ShareShadow (ConnectOpts (options w)) \<longrightarrow>
      workloadName env (options w) =
        ''kt-connect-daemon-'' @ ToLower (unicodeLower env) (RandomString env 5)
      \<and> (isASCII (RandomString env 5) \<and> length (RandomString env 5) = 5 \<longrightarrow>
            length (ToLower (unicodeLower env) (RandomString env 5)) = 5))
   \<and> trace (snd (getOrCreateShadow c env err w)) =
        trace w @ [EvGetOrCreateShadow (workloadName env (options w))]
   \<and> (\<forall>r. fst (getOrCreateShadow c env err w) = Inr r \<longrightarrow>
        Shadow (RuntimeOpts (options (snd (getOrCreateShadow c env err w)))) =
          workloadName env (options w))
   \<and> fst (getOrCreateShadow c env err w) =
        (case GetOrCreateShadow env (workloadName env (options w)) (options w)
                (labels c (String2Map env (Labels (options w))) (workloadName env (options w)))
                Map.empty (envs c (options w)) of
           Inl msg \<Rightarrow> Inl (Collaborator msg)
         | Inr (endPointIP, podName, sshcm, credential) \<Rightarrow>
             Inr (endPointIP, podName, credential))
   \<and> (\<forall>endPointIP podName sshcm credential.
        GetOrCreateShadow env (workloadName env (options w)) (options w)
            (labels c (String2Map env (Labels (options w))) (workloadName env (options w)))
            Map.empty (envs c (options w)) = Inr (endPointIP, podName, sshcm, credential) \<longrightarrow>
        SSHCM (RuntimeOpts (options (snd (getOrCreateShadow c env err w)))) = sshcm)"
  using getOrCreateShadow_trace [of c env err w] getOrCreateShadow_Shadow [of c env err w]
    getOrCreateShadow_call [of c env err w] getOrCreateShadow_SSHCM [of env w c _ _ _ _ err]
  by (simp add: workloadName_def length_ToLower)

theorem workload_naming_witness:
  "ShareShadow (ConnectOpts (options sampleWorld))
   \<and> workloadName sampleEnv (options sampleWorld) =
       workloadName (sampleEnv\<lparr>RandomString := \<lambda>n. replicate n CHR ''Z''\<rparr>) (options sampleWorld)
   \<and> workloadName sampleEnv (options sampleWorld) = ''kt-connect-daemon-connect-shared''
   \<and> \<not> ShareShadow (ConnectOpts (options socksWorld))
   \<and> isASCII (RandomString sampleEnv 5) \<and> length (RandomString sampleEnv 5) = 5
   \<and> workloadName sampleEnv (options socksWorld) = ''kt-connect-daemon-abcde''
   \<and> length (ToLower (unicodeLower sampleEnv) (RandomString sampleEnv 5)) = 5
   \<and> trace (snd (getOrCreateShadow sampleCommon sampleEnv None socksWorld)) =
       [EvGetOrCreateShadow ''kt-connect-daemon-abcde'']
   \<and> fst (getOrCreateShadow sampleCommon sampleEnv None socksWorld) =
       Inr (''172.16.0.9'', ''kt-connect-daemon-abcde-pod'', ())
   \<and> Shadow (RuntimeOpts (options (snd (getOrCreateShadow sampleCommon sampleEnv None socksWorld)))) =
       ''kt-connect-daemon-abcde''
   \<and> SSHCM (RuntimeOpts (options (snd (getOrCreateShadow sampleCommon sampleEnv None socksWorld)))) =
       ''kt-connect-daemon-abcde-cm''
   \<and> fst (getOrCreateShadow sampleCommon sampleEnv None sampleWorld) =
       Inr (''172.16.0.9'', ''kt-connect-daemon-connect-shared-pod'', ())
   \<and> fst (getOrCreateShadow sampleCommon
            (sampleEnv\<lparr>RandomString := \<lambda>n. replicate n CHR ''Z''\<rparr>) None sampleWorld) =
       Inr (''172.16.0.9'', ''kt-connect-daemon-connect-shared-pod'', ())
   \<and> Shadow (RuntimeOpts (options (snd (getOrCreateShadow sampleCommon sampleEnv None sampleWorld)))) =
       ''kt-connect-daemon-connect-shared''
   \<and> SSHCM (RuntimeOpts (options (snd (getOrCreateShadow sampleCommon sampleEnv None sampleWorld)))) =
       ''kt-connect-daemon-connect-shared-cm''"
proof -
  let ?env' = "sampleEnv\<lparr>RandomString := \<lambda>n. replicate n CHR ''Z''\<rparr>"
  have call: "GetOrCreateShadow sampleEnv n opts ls as es =
      Inr (''172.16.0.9'', n @ ''-pod'', n @ ''-cm'', ())" for n opts ls as es
    by (simp add: sampleEnv_def)
  have name: "workloadName sampleEnv socksOptions = ''kt-connect-daemon-abcde''"
    by (simp add: workloadName_def sampleEnv_def socksOptions_def sampleOptions_def
        ToLower_def isASCII_def lowerByte_def char_of_eq_iff)
  have ascii: "isASCII (RandomString sampleEnv 5) \<and> length (RandomString sampleEnv 5) = 5"
    by (simp add: sampleEnv_def isASCII_def)
  have shared: "ShareShadow (ConnectOpts (options sampleWorld))"
    by (simp add: sampleWorld_def sampleOptions_def)
  have priv: "\<not> ShareShadow (ConnectOpts (options socksWorld))"
    by (simp add: socksWorld_def sampleWorld_def socksOptions_def sampleOptions_def)
  have opts: "options socksWorld = socksOptions" "trace socksWorld = []"
    by (simp_all add: socksWorld_def sampleWorld_def)
  have name': "workloadName sampleEnv (options socksWorld) = ''kt-connect-daemon-abcde''"
    using name by (simp only: opts)
  note sharedRun = workload_naming [of sampleWorld sampleWorld sampleEnv ?env' sampleCommon None]
  note sharedRun' = workload_naming [of sampleWorld sampleWorld ?env' sampleEnv sampleCommon None]
  note privRun = workload_naming [of socksWorld socksWorld sampleEnv sampleEnv sampleCommon None]
  have a: "workloadName sampleEnv (options sampleWorld) = workloadName ?env' (options sampleWorld)
      \<and> workloadName sampleEnv (options sampleWorld) = ''kt-connect-daemon-connect-shared''"
    using sharedRun shared by blast
  have a1: "workloadName sampleEnv (options sampleWorld) = ''kt-connect-daemon-connect-shared''"
    using a by blast
  have a2: "workloadName ?env' (options sampleWorld) = ''kt-connect-daemon-connect-shared''"
    using a by metis
  have sharedRes: "fst (getOrCreateShadow sampleCommon sampleEnv None sampleWorld) =
      Inr (''172.16.0.9'', ''kt-connect-daemon-connect-shared-pod'', ())"
    using sharedRun [THEN conjunct2, THEN conjunct2, THEN conjunct2, THEN conjunct2, THEN conjunct1]
    by (simp add: call a1)
  have sharedRes': "fst (getOrCreateShadow sampleCommon ?env' None sampleWorld) =
      Inr (''172.16.0.9'', ''kt-connect-daemon-connect-shared-pod'', ())"
    using sharedRun' [THEN conjunct2, THEN conjunct2, THEN conjunct2, THEN conjunct2, THEN conjunct1]
    by (simp add: call a2)
  have sharedShadow:
    "Shadow (RuntimeOpts (options (snd (getOrCreateShadow sampleCommon sampleEnv None sampleWorld)))) =
       ''kt-connect-daemon-connect-shared''"
    using sharedRun [THEN conjunct2, THEN conjunct2, THEN conjunct2, THEN conjunct1] sharedRes a1
    by simp
  have sharedCM:
    "SSHCM (RuntimeOpts (options (snd (getOrCreateShadow sampleCommon sampleEnv None sampleWorld)))) =
       ''kt-connect-daemon-connect-shared-cm''"
    using sharedRun [THEN conjunct2, THEN conjunct2, THEN conjunct2, THEN conjunct2, THEN conjunct2]
    by (simp add: call a1)
  have res: "fst (getOrCreateShadow sampleCommon sampleEnv None socksWorld) =
      Inr (''172.16.0.9'', ''kt-connect-daemon-abcde-pod'', ())"
    using privRun [THEN conjunct2, THEN conjunct2, THEN conjunct2, THEN conjunct2, THEN conjunct1]
    by (simp add: call name')
  have privCM:
    "SSHCM (RuntimeOpts (options (snd (getOrCreateShadow sampleCommon sampleEnv None socksWorld)))) =
       ''kt-connect-daemon-abcde-cm''"
    using privRun [THEN conjunct2, THEN conjunct2, THEN conjunct2, THEN conjunct2, THEN conjunct2]
    by (simp add: call name')
  have b: "length (ToLower (unicodeLower sampleEnv) (RandomString sampleEnv 5)) = 5
      \<and> trace (snd (getOrCreateShadow sampleCommon sampleEnv None socksWorld)) =
          trace socksWorld @ [EvGetOrCreateShadow (workloadName sampleEnv (options socksWorld))]
      \<and> Shadow (RuntimeOpts (options (snd (getOrCreateShadow sampleCommon sampleEnv None socksWorld)))) =
          workloadName sampleEnv (options socksWorld)"
    using privRun priv ascii res by blast
  have b': "length (ToLower (unicodeLower sampleEnv) (RandomString sampleEnv 5)) = 5
      \<and> trace (snd (getOrCreateShadow sampleCommon sampleEnv None socksWorld)) =
          [EvGetOrCreateShadow ''kt-connect-daemon-abcde'']
      \<and> Shadow (RuntimeOpts (options (snd (getOrCreateShadow sampleCommon sampleEnv None socksWorld)))) =
          ''kt-connect-daemon-abcde''"
    using b unfolding name' opts(2) append_Nil .
  show ?thesis
    using a b' name' res ascii shared priv sharedRes sharedRes' sharedShadow sharedCM privCM
    by blast
qed

subsection \<open>Labels of the shadow (C3)\<close>

lemma labels_eq:
  "labels c userLabels workload =
     ([ControlBy c \<mapsto> KubernetesTool c, KTComponent c \<mapsto> ComponentConnect c,
       KTName c \<mapsto> workload] ++ map_of (rev userLabels))
     (KTVersion c \<mapsto> finalSegment workload)"
  by (simp add: labels_def Let_def fold_update last_Split finalSegment_def)

text \<open>
  C3, amended. For every workload name and every user label map (a Go map: its keys are
  distinct), the labels of the shadow hold the control marker, the component tag, the
  name and the version tag, and the user's labels besides. The version tag is always the
  final hyphen-delimited segment of the workload name, also when the user supplies a
  label under the version key. On a collision with any of the three other generated
  labels the user's value wins; a generated label the user does not supply keeps its
  generated value. The four generated keys are distinct constants.
\<close>

theorem labels_contents:
  assumes "distinct (map fst userLabels)"
    and "distinct [ControlBy c, KTComponent c, KTName c, KTVersion c]"
  shows "labels c userLabels workload (KTVersion c) = Some (finalSegment workload)
    \<and> last (Split workload CHR ''-'') = finalSegment workload
    \<and> dom (labels c userLabels workload) =
        {ControlBy c, KTComponent c, KTName c, KTVersion c} \<union> fst ` set userLabels
    \<and> (\<forall>(k, v) \<in> set userLabels. k \<noteq> KTVersion c \<longrightarrow>
          labels c userLabels workload k = Some v)
    \<and> (ControlBy c \<notin> fst ` set userLabels \<longrightarrow>
          labels c userLabels workload (ControlBy c) = Some (KubernetesTool c))
    \<and> (KTComponent c \<notin> fst ` set userLabels \<longrightarrow>
          labels c userLabels workload (KTComponent c) = Some (ComponentConnect c))
    \<and> (KTName c \<notin> fst ` set userLabels \<longrightarrow>
          labels c userLabels workload (KTName c) = Some workload)"
proof -
  have user: "map_of (rev userLabels) = map_of userLabels"
    using assms(1) by (rule map_of_rev_distinct)
  have none: "k \<notin> fst ` set userLabels \<Longrightarrow> map_of userLabels k = None" for k
    by (simp add: map_of_eq_None_iff)
  have some: "(k, v) \<in> set userLabels \<Longrightarrow> map_of userLabels k = Some v" for k v
    using assms(1) by simp
  have "dom (labels c userLabels workload) =
      {ControlBy c, KTComponent c, KTName c, KTVersion c} \<union> fst ` set userLabels"
    unfolding labels_eq user by (auto simp: dom_map_of_conv_image_fst)
  moreover have "\<forall>(k, v) \<in> set userLabels. k \<noteq> KTVersion c \<longrightarrow>
      labels c userLabels workload k = Some v"
    unfolding labels_eq user by (auto simp: map_add_def some)
  moreover have "labels c userLabels workload (KTVersion c) = Some (finalSegment workload)"
    unfolding labels_eq by simp
  moreover have "last (Split workload CHR ''-'') = finalSegment workload"
    by (simp add: last_Split finalSegment_def)
  moreover have "ControlBy c \<notin> fst ` set userLabels \<longrightarrow>
      labels c userLabels workload (ControlBy c) = Some (KubernetesTool c)"
    unfolding labels_eq user using assms(2) by (auto simp: map_add_def none)
  moreover have "KTComponent c \<notin> fst ` set userLabels \<longrightarrow>
      labels c userLabels workload (KTComponent c) = Some (ComponentConnect c)"
    unfolding labels_eq user using assms(2) by (auto simp: map_add_def none)
  moreover have "KTName c \<notin> fst ` set userLabels \<longrightarrow>
      labels c userLabels workload (KTName c) = Some workload"
    unfolding labels_eq user using assms(2) by (auto simp: map_add_def none)
  ultimately show ?thesis
    by blast
qed

theorem labels_contents_witness:
  "distinct (map fst [(''kt-name'', ''custom''), (''app'', ''demo'')])
   \<and> distinct [ControlBy sampleCommon, KTComponent sampleCommon, KTName sampleCommon,
        KTVersion sampleCommon]
   \<and> labels sampleCommon [(''kt-name'', ''custom''), (''app'', ''demo'')]
        ''kt-connect-daemon-abcde'' ''kt-version'' = Some ''abcde''
   \<and> labels sampleCommon [(''kt-name'', ''custom''), (''app'', ''demo'')]
        ''kt-connect-daemon-abcde'' ''kt-name'' = Some ''custom''
   \<and> labels sampleCommon [(''kt-name'', ''custom''), (''app'', ''demo'')]
        ''kt-connect-daemon-abcde'' ''app'' = Some ''demo''
   \<and> labels sampleCommon [(''kt-name'', ''custom''), (''app'', ''demo'')]
        ''kt-connect-daemon-abcde'' ''control-by'' = Some ''kt''
   \<and> labels sampleCommon [(''kt-name'', ''custom''), (''app'', ''demo'')]
        ''kt-connect-daemon-abcde'' ''kt-component'' = Some ''connect''"
  using labels_contents [of "[(''kt-name'', ''custom''), (''app'', ''demo'')]" sampleCommon
      "''kt-connect-daemon-abcde''"]
  by (simp add: sampleCommon_def finalSegment_def)

text \<open>
  The claim as first stated gives the user's value precedence on every collision. It
  fails on the version key: a user label under that key is overwritten by the segment of
  the name, because \<^verbatim>\<open>labels\<close> sets the version tag after it has merged the user's
  labels.
\<close>

theorem labels_user_precedence_counterexample:
  "(KTVersion sampleCommon, ''mine'') \<in> set [(KTVersion sampleCommon, ''mine'')]
   \<and> labels sampleCommon [(KTVersion sampleCommon, ''mine'')] ''kt-connect-daemon-abcde''
        (KTVersion sampleCommon) = Some ''abcde''
   \<and> labels sampleCommon [(KTVersion sampleCommon, ''mine'')] ''kt-connect-daemon-abcde''
        (KTVersion sampleCommon) \<noteq> Some ''mine''"
  by (simp add: labels_eq finalSegment_def)

subsection \<open>The IP range allocator (C4, C5)\<close>

lemma AllocateNext_empty:
  "AllocateNext \<lparr>rangeBase = b, bitmap = []\<rparr> = Inl RangeExhausted"
  by (simp add: AllocateNext_def)

lemma AllocateNext_first:
  "AllocateNext \<lparr>rangeBase = b, bitmap = False # bs\<rparr> =
     Inr (b, \<lparr>rangeBase = b, bitmap = True # bs\<rparr>)"
proof -
  have "[0..<length (False # bs)] = 0 # [Suc 0..<Suc (length bs)]"
    by (simp add: upt_rec)
  then show ?thesis
    by (simp add: AllocateNext_def del: upt_Suc)
qed

lemma AllocateNext_second_full:
  "AllocateNext \<lparr>rangeBase = b, bitmap = [True]\<rparr> = Inl RangeExhausted"
  by (simp add: AllocateNext_def)

lemma AllocateNext_second:
  "AllocateNext \<lparr>rangeBase = b, bitmap = True # False # bs\<rparr> =
     Inr (Suc b, \<lparr>rangeBase = b, bitmap = True # True # bs\<rparr>)"
proof -
  have "[0..<length (True # False # bs)] = 0 # Suc 0 # [Suc (Suc 0)..<Suc (Suc (length bs))]"
    by (simp add: upt_rec)
  then show ?thesis
    by (simp add: AllocateNext_def del: upt_Suc)
qed

lemma allocateTunIP_two_usable:
  assumes "ParseCIDR env cidr = Some n" and "2 \<le> usable n"
  shows "allocateTunIP env cidr =
     Inr (IPString env (network n + 1), IPString env (network n + 2))"
proof -
  have "\<exists>u. usable n = 2 + u"
    using assms(2) by (rule le_Suc_ex)
  then obtain u where u: "usable n = Suc (Suc u)"
    by auto
  show ?thesis
    using assms(1)
    by (simp add: allocateTunIP_def NewAllocatorCIDRRange_def u
        AllocateNext_first AllocateNext_second)
qed

lemma allocateTunIP_exhausted:
  assumes "ParseCIDR env cidr = Some n" and "usable n < 2"
  shows "allocateTunIP env cidr = Inl RangeExhausted"
proof -
  consider "usable n = 0" | "usable n = Suc 0"
    using assms(2) by linarith
  then show ?thesis
  proof cases
    case 1
    then show ?thesis
      using assms(1)
      by (simp add: allocateTunIP_def NewAllocatorCIDRRange_def AllocateNext_empty)
  next
    case 2
    then show ?thesis
      using assms(1)
      by (simp add: allocateTunIP_def NewAllocatorCIDRRange_def AllocateNext_first
          AllocateNext_second_full)
  qed
qed

lemma hosts_in_network:
  assumes "2 \<le> usable n"
  shows "inNetwork n (network n + 1) \<and> inNetwork n (network n + 2)
    \<and> network n + 1 \<noteq> network n \<and> network n + 1 \<noteq> broadcast n
    \<and> network n + 2 \<noteq> network n \<and> network n + 2 \<noteq> broadcast n"
  using assms by (auto simp: inNetwork_def broadcast_def usable_def)

lemma sample_parse:
  "ParseCIDR sampleEnv ''10.1.1.0/30'' = Some \<lparr>addrBits = 32, prefixLen = 30, network = 167837952\<rparr>"
  "ParseCIDR sampleEnv ''10.1.1.7/32'' = Some \<lparr>addrBits = 32, prefixLen = 32, network = 167837959\<rparr>"
  "ParseCIDR sampleEnv ''ten.one.one.zero'' = None"
  by (simp_all add: sampleEnv_def)

lemma sample_alloc:
  "allocateTunIP sampleEnv ''10.1.1.0/30'' = Inr (''10.1.1.1'', ''10.1.1.2'')"
  using allocateTunIP_two_usable [OF sample_parse(1)]
  by (simp add: usable_def netSize_def sampleEnv_def ipv4String_def octetString_def
      digitChar_def char_of_eq_iff)

text \<open>
  C4. For every string that parses as a CIDR whose network has at least two usable host
  addresses, \<^verbatim>\<open>allocateTunIP\<close> returns the text of two addresses that are distinct,
  lie within the network and are neither its network address nor its broadcast address;
  \<^verbatim>\<open>CompleteOptions\<close> stores the first as the source address and the second as the
  destination address of the tunnel. The allocator is the model of the specification's
  words given above.
\<close>

theorem allocateTunIP_pair:
  assumes "ParseCIDR env cidr = Some n" and "2 \<le> usable n"
  shows "\<exists>ip1 ip2. allocateTunIP env cidr = Inr (IPString env ip1, IPString env ip2)
    \<and> ip1 \<noteq> ip2
    \<and> inNetwork n ip1 \<and> inNetwork n ip2
    \<and> ip1 \<noteq> network n \<and> ip1 \<noteq> broadcast n
    \<and> ip2 \<noteq> network n \<and> ip2 \<noteq> broadcast n
    \<and> (\<forall>w. Method (ConnectOpts (options w)) = ConnectMethodTun c
            \<and> TunCidr (ConnectOpts (options w)) = cidr \<longrightarrow>
          fst (CompleteOptions c env w) = None
          \<and> SourceIP (ConnectOpts (options (snd (CompleteOptions c env w)))) = IPString env ip1
          \<and> DestIP (ConnectOpts (options (snd (CompleteOptions c env w)))) = IPString env ip2)"
proof (intro exI conjI)
  show "allocateTunIP env cidr =
      Inr (IPString env (network n + 1), IPString env (network n + 2))"
    using assms by (rule allocateTunIP_two_usable)
  then show "\<forall>w. Method (ConnectOpts (options w)) = ConnectMethodTun c
            \<and> TunCidr (ConnectOpts (options w)) = cidr \<longrightarrow>
          fst (CompleteOptions c env w) = None
          \<and> SourceIP (ConnectOpts (options (snd (CompleteOptions c env w)))) =
              IPString env (network n + 1)
          \<and> DestIP (ConnectOpts (options (snd (CompleteOptions c env w)))) =
              IPString env (network n + 2)"
    by (simp add: CompleteOptions_def Let_def emit_def)
qed (use hosts_in_network [OF assms(2)] in simp_all)

theorem allocateTunIP_pair_witness:
  "ParseCIDR sampleEnv ''10.1.1.0/30'' =
     Some \<lparr>addrBits = 32, prefixLen = 30, network = 167837952\<rparr>
   \<and> 2 \<le> usable \<lparr>addrBits = 32, prefixLen = 30, network = 167837952\<rparr>
   \<and> Method (ConnectOpts (options sampleWorld)) = ConnectMethodTun sampleCommon
   \<and> TunCidr (ConnectOpts (options sampleWorld)) = ''10.1.1.0/30''
   \<and> allocateTunIP sampleEnv ''10.1.1.0/30'' = Inr (''10.1.1.1'', ''10.1.1.2'')
   \<and> fst (CompleteOptions sampleCommon sampleEnv sampleWorld) = None
   \<and> SourceIP (ConnectOpts (options (snd (CompleteOptions sampleCommon sampleEnv sampleWorld)))) =
       ''10.1.1.1''
   \<and> DestIP (ConnectOpts (options (snd (CompleteOptions sampleCommon sampleEnv sampleWorld)))) =
       ''10.1.1.2''"
proof -
  let ?n = "\<lparr>addrBits = 32, prefixLen = 30, network = 167837952\<rparr>"
  have parse: "ParseCIDR sampleEnv ''10.1.1.0/30'' = Some ?n"
    by (rule sample_parse(1))
  have room: "2 \<le> usable ?n"
    by (simp add: usable_def netSize_def)
  have tun: "Method (ConnectOpts (options sampleWorld)) = ConnectMethodTun sampleCommon
      \<and> TunCidr (ConnectOpts (options sampleWorld)) = ''10.1.1.0/30''"
    by (simp add: sampleWorld_def sampleOptions_def sampleCommon_def)
  obtain ip1 ip2 where
    pair: "allocateTunIP sampleEnv ''10.1.1.0/30'' = Inr (IPString sampleEnv ip1, IPString sampleEnv ip2)"
    and used: "\<forall>w. Method (ConnectOpts (options w)) = ConnectMethodTun sampleCommon
            \<and> TunCidr (ConnectOpts (options w)) = ''10.1.1.0/30'' \<longrightarrow>
          fst (CompleteOptions sampleCommon sampleEnv w) = None
          \<and> SourceIP (ConnectOpts (options (snd (CompleteOptions sampleCommon sampleEnv w)))) =
              IPString sampleEnv ip1
          \<and> DestIP (ConnectOpts (options (snd (CompleteOptions sampleCommon sampleEnv w)))) =
              IPString sampleEnv ip2"
    using allocateTunIP_pair [OF parse room, of sampleCommon] by blast
  have strings: "IPString sampleEnv ip1 = ''10.1.1.1'' \<and> IPString sampleEnv ip2 = ''10.1.1.2''"
    using pair sample_alloc by simp
  show ?thesis
    using parse room tun sample_alloc used strings by metis
qed

text \<open>
  C5. On a string that does not parse as a CIDR \<^verbatim>\<open>allocateTunIP\<close> fails with the
  parse error, on a CIDR with fewer than two usable addresses it fails with
  \<open>RangeExhausted\<close>; a failure returns no addresses, and \<^verbatim>\<open>CompleteOptions\<close> then
  returns the error and leaves the options as they were. The allocator is the model of
  the specification's words given above.
\<close>

theorem allocateTunIP_failures:
  "(ParseCIDR env cidr = None \<longrightarrow> allocateTunIP env cidr = Inl (InvalidCIDR cidr))
   \<and> (\<forall>n. ParseCIDR env cidr = Some n \<and> usable n < 2 \<longrightarrow>
         allocateTunIP env cidr = Inl RangeExhausted)
   \<and> (\<forall>err w. allocateTunIP env cidr = Inl err
         \<and> Method (ConnectOpts (options w)) = ConnectMethodTun c
         \<and> TunCidr (ConnectOpts (options w)) = cidr \<longrightarrow>
         fst (CompleteOptions c env w) = Some err
         \<and> options (snd (CompleteOptions c env w)) = options w)"
proof (intro conjI allI impI)
  show "allocateTunIP env cidr = Inl (InvalidCIDR cidr)" if "ParseCIDR env cidr = None"
    using that by (simp add: allocateTunIP_def)
  show "allocateTunIP env cidr = Inl RangeExhausted"
    if "ParseCIDR env cidr = Some n \<and> usable n < 2" for n
    using that allocateTunIP_exhausted by blast
  show "fst (CompleteOptions c env w) = Some err"
    if "allocateTunIP env cidr = Inl err
         \<and> Method (ConnectOpts (options w)) = ConnectMethodTun c
         \<and> TunCidr (ConnectOpts (options w)) = cidr" for err w
    using that by (simp add: CompleteOptions_def Let_def)
  show "options (snd (CompleteOptions c env w)) = options w"
    if "allocateTunIP env cidr = Inl err
         \<and> Method (ConnectOpts (options w)) = ConnectMethodTun c
         \<and> TunCidr (ConnectOpts (options w)) = cidr" for err w
    using that by (simp add: CompleteOptions_def Let_def emit_def)
qed

theorem allocateTunIP_failures_witness:
  "ParseCIDR sampleEnv ''ten.one.one.zero'' = None
   \<and> allocateTunIP sampleEnv ''ten.one.one.zero'' = Inl (InvalidCIDR ''ten.one.one.zero'')
   \<and> ParseCIDR sampleEnv ''10.1.1.7/32'' =
       Some \<lparr>addrBits = 32, prefixLen = 32, network = 167837959\<rparr>
   \<and> usable \<lparr>addrBits = 32, prefixLen = 32, network = 167837959\<rparr> < 2
   \<and> allocateTunIP sampleEnv ''10.1.1.7/32'' = Inl RangeExhausted
   \<and> Method (ConnectOpts (options exhaustedWorld)) = ConnectMethodTun sampleCommon
   \<and> TunCidr (ConnectOpts (options exhaustedWorld)) = ''10.1.1.7/32''
   \<and> fst (CompleteOptions sampleCommon sampleEnv exhaustedWorld) = Some RangeExhausted
   \<and> options (snd (CompleteOptions sampleCommon sampleEnv exhaustedWorld)) =
       options exhaustedWorld"
proof -
  let ?n = "\<lparr>addrBits = 32, prefixLen = 32, network = 167837959\<rparr>"
  note claim = allocateTunIP_failures [of sampleEnv _ sampleCommon]
  have full: "usable ?n < 2"
    by (simp add: usable_def netSize_def)
  have tun: "Method (ConnectOpts (options exhaustedWorld)) = ConnectMethodTun sampleCommon
      \<and> TunCidr (ConnectOpts (options exhaustedWorld)) = ''10.1.1.7/32''"
    by (simp add: exhaustedWorld_def sampleWorld_def sampleOptions_def sampleCommon_def)
  have bad: "allocateTunIP sampleEnv ''ten.one.one.zero'' = Inl (InvalidCIDR ''ten.one.one.zero'')"
    using claim [of "''ten.one.one.zero''"] sample_parse(3) by blast
  have none: "allocateTunIP sampleEnv ''10.1.1.7/32'' = Inl RangeExhausted"
    using claim [of "''10.1.1.7/32''"] sample_parse(2) full by blast
  have "fst (CompleteOptions sampleCommon sampleEnv exhaustedWorld) = Some RangeExhausted
      \<and> options (snd (CompleteOptions sampleCommon sampleEnv exhaustedWorld)) =
          options exhaustedWorld"
    using claim [of "''10.1.1.7/32''"] none tun by blast
  then show ?thesis
    using sample_parse(2,3) full tun bad none by blast
qed

subsection \<open>The trace of a run\<close>

lemma emit_simps [simp]:
  "trace (emit ev w) = trace w @ [ev]"
  "options (emit ev w) = options w"
  "pidFiles (emit ev w) = pidFiles w"
  "alive (emit ev w) = alive w"
  "dumpedHosts (emit ev w) = dumpedHosts w"
  by (simp_all add: emit_def)

lemma IsDaemonRunning_emit [simp]:
  "IsDaemonRunning pidFile (emit ev w) = IsDaemonRunning pidFile w"
  by (simp add: IsDaemonRunning_def split: option.splits)

lemma inOrder_Nil [simp]: "inOrder lo hi []"
  by (simp add: inOrder_def)

lemma inOrder_single: "lo \<le> stepOrder ev \<Longrightarrow> stepOrder ev \<le> hi \<Longrightarrow> inOrder lo hi [ev]"
  by (simp add: inOrder_def)

lemma inOrder_append:
  assumes "inOrder lo mid xs" and "inOrder mid hi ys" and "lo \<le> mid" and "mid \<le> hi"
  shows "inOrder lo hi (xs @ ys)"
proof -
  have xs: "\<forall>x \<in> set xs. lo \<le> stepOrder x \<and> stepOrder x \<le> mid"
    using assms(1) by (simp add: inOrder_def list_all_iff)
  have ys: "\<forall>y \<in> set ys. mid \<le> stepOrder y \<and> stepOrder y \<le> hi"
    using assms(2) by (simp add: inOrder_def list_all_iff)
  have "\<forall>x \<in> set xs. \<forall>y \<in> set ys. stepOrder x \<le> stepOrder y"
    using xs ys by (meson order_trans)
  moreover have "\<forall>x \<in> set xs. lo \<le> stepOrder x \<and> stepOrder x \<le> hi"
    using xs assms(4) by (meson order_trans)
  moreover have "\<forall>y \<in> set ys. lo \<le> stepOrder y \<and> stepOrder y \<le> hi"
    using ys assms(3) by (meson order_trans)
  ultimately show ?thesis
    using assms(1,2) by (auto simp: inOrder_def sorted_append list_all_iff)
qed

lemma inOrder_widen:
  "inOrder lo hi evs \<Longrightarrow> lo' \<le> lo \<Longrightarrow> hi \<le> hi' \<Longrightarrow> inOrder lo' hi' evs"
  by (fastforce simp: inOrder_def list_all_iff)

lemma newEvents_append [simp]: "trace w' = trace w @ evs \<Longrightarrow> newEvents w w' = evs"
  by (simp add: newEvents_def)

subsection \<open>setupDump2Host\<close>

lemma setupDump2Host_trace:
  "trace (setupDump2Host env w) =
     trace w @ map EvServiceHosts (Namespace (options w) #
       filter (\<lambda>namespace. namespace \<noteq> Namespace (options w))
         (Dump2HostsNamespaces (ConnectOpts (options w)))) @ [EvDumpHosts]"
  by (simp add: setupDump2Host_def Let_def)

lemma setupDump2Host_fields [simp]:
  "pidFiles (setupDump2Host env w) = pidFiles w"
  "alive (setupDump2Host env w) = alive w"
  "Namespace (options (setupDump2Host env w)) = Namespace (options w)"
  "Labels (options (setupDump2Host env w)) = Labels (options w)"
  "ConnectOpts (options (setupDump2Host env w)) = ConnectOpts (options w)"
  "RuntimeOpts (options (setupDump2Host env w)) = (RuntimeOpts (options w))\<lparr>Dump2Host := True\<rparr>"
  by (simp_all add: setupDump2Host_def Let_def)

lemma sorted_ServiceHosts: "sorted (map stepOrder (map EvServiceHosts xs))"
  by (induction xs) auto

lemma dumpEvents_inOrder: "inOrder 7 8 (map EvServiceHosts xs @ [EvDumpHosts])"
  using sorted_ServiceHosts [of xs]
  by (auto simp: inOrder_def list_all_iff sorted_append simp del: map_map)

lemma setupDump2Host_inOrder:
  "\<exists>evs. trace (setupDump2Host env w) = trace w @ evs \<and> inOrder 7 8 evs"
  unfolding setupDump2Host_trace using dumpEvents_inOrder by blast

subsection \<open>setupSocksProxy\<close>

lemma setupSocksProxy_trace:
  "trace (snd (setupSocksProxy env w)) =
     trace w @ [EvSetGlobalProxy (SocksPort (ConnectOpts (options w)))]
       @ proxyLog ''Failed to setup global connect proxy: ''
           (fst (SetGlobalProxy env (SocksPort (ConnectOpts (options w)))
              (ProxyConfig (RuntimeOpts (options w)))))
       @ [EvSetHttpProxyEnvironmentVariable (SocksPort (ConnectOpts (options w)))]
       @ proxyLog ''Failed to setup global http proxy: ''
           (fst (SetHttpProxyEnvironmentVariable env (SocksPort (ConnectOpts (options w)))
              (snd (SetGlobalProxy env (SocksPort (ConnectOpts (options w)))
                 (ProxyConfig (RuntimeOpts (options w)))))))"
  by (simp add: setupSocksProxy_def Let_def proxyLog_def split: prod.splits option.splits)

lemma setupSocksProxy_fields [simp]:
  "pidFiles (snd (setupSocksProxy env w)) = pidFiles w"
  "alive (snd (setupSocksProxy env w)) = alive w"
  "Namespace (options (snd (setupSocksProxy env w))) = Namespace (options w)"
  "Labels (options (snd (setupSocksProxy env w))) = Labels (options w)"
  "ConnectOpts (options (snd (setupSocksProxy env w))) = ConnectOpts (options w)"
  "Shadow (RuntimeOpts (options (snd (setupSocksProxy env w)))) = Shadow (RuntimeOpts (options w))"
  "SSHCM (RuntimeOpts (options (snd (setupSocksProxy env w)))) = SSHCM (RuntimeOpts (options w))"
  "PidFile (RuntimeOpts (options (snd (setupSocksProxy env w)))) = PidFile (RuntimeOpts (options w))"
  by (simp_all add: setupSocksProxy_def Let_def split: prod.splits option.splits)

lemma proxyLog_inOrder: "inOrder 10 10 (proxyLog what err)"
  by (simp add: proxyLog_def inOrder_def split: option.splits)

lemma socksEvents_inOrder:
  "inOrder 9 10 ([EvSetGlobalProxy port] @ proxyLog what1 err1
     @ [EvSetHttpProxyEnvironmentVariable port] @ proxyLog what2 err2)"
  by (auto simp: inOrder_def proxyLog_def split: option.splits)

lemma setupSocksProxy_inOrder:
  "\<exists>evs. trace (snd (setupSocksProxy env w)) = trace w @ evs \<and> inOrder 9 10 evs"
  unfolding setupSocksProxy_trace using socksEvents_inOrder by blast

subsection \<open>The lock\<close>

lemma WritePidFile_held:
  "IsDaemonRunning pidFile w \<Longrightarrow>
     WritePidFile self pidFile w = (Inl (AlreadyRunning pidFile), w)"
  by (simp add: WritePidFile_def)

lemma WritePidFile_free:
  "\<not> IsDaemonRunning pidFile w \<Longrightarrow>
     WritePidFile self pidFile w = (Inr self, w\<lparr>pidFiles := (pidFiles w)(pidFile \<mapsto> self)\<rparr>)"
  by (simp add: WritePidFile_def)

subsection \<open>connectSetup\<close>

lemma connectSetup_held:
  assumes "IsDaemonRunning (PidFile (RuntimeOpts (options w))) w"
  shows "connectSetup c env w =
     (Inl (AlreadyRunning (PidFile (RuntimeOpts (options w)))),
      emit (EvWritePidFile (PidFile (RuntimeOpts (options w)))) w)"
  using assms by (simp add: connectSetup_def Let_def WritePidFile_held)

lemma pidWritten_fields [simp]:
  "trace (pidWritten env w) = trace w @ [EvWritePidFile (PidFile (RuntimeOpts (options w)))]"
  "options (pidWritten env w) = options w"
  "pidFiles (pidWritten env w) = (pidFiles w)(PidFile (RuntimeOpts (options w)) \<mapsto> selfPid env)"
  "alive (pidWritten env w) = alive w"
  by (simp_all add: pidWritten_def)

lemma connectSetup_kube:
  assumes "\<not> IsDaemonRunning (PidFile (RuntimeOpts (options w))) w"
    and "Kubernetes env = Some msg"
  shows "connectSetup c env w = (Inl (Collaborator msg), emit EvKubernetes (pidWritten env w))"
  using assms by (simp add: connectSetup_def Let_def WritePidFile_free pidWritten_def)

lemma connectSetup_reached:
  assumes "\<not> IsDaemonRunning (PidFile (RuntimeOpts (options w))) w"
    and "Kubernetes env = None"
  shows "connectSetup c env w =
     (if Method (ConnectOpts (options w)) = ConnectMethodSocks c
      then (Inr (fst (setupSocksProxy env (hostsDumped env w))),
            snd (setupSocksProxy env (hostsDumped env w)))
      else (Inr None, hostsDumped env w))"
  using assms
  by (simp add: connectSetup_def Let_def WritePidFile_free pidWritten_def hostsDumped_def
      split: prod.splits)

lemma hostsDumped_fields [simp]:
  "pidFiles (hostsDumped env w) = (pidFiles w)(PidFile (RuntimeOpts (options w)) \<mapsto> selfPid env)"
  "alive (hostsDumped env w) = alive w"
  "Namespace (options (hostsDumped env w)) = Namespace (options w)"
  "Labels (options (hostsDumped env w)) = Labels (options w)"
  "ConnectOpts (options (hostsDumped env w)) = ConnectOpts (options w)"
  "Shadow (RuntimeOpts (options (hostsDumped env w))) = Shadow (RuntimeOpts (options w))"
  "SSHCM (RuntimeOpts (options (hostsDumped env w))) = SSHCM (RuntimeOpts (options w))"
  "PidFile (RuntimeOpts (options (hostsDumped env w))) = PidFile (RuntimeOpts (options w))"
  "ProxyConfig (RuntimeOpts (options (hostsDumped env w))) = ProxyConfig (RuntimeOpts (options w))"
  by (simp_all add: hostsDumped_def Let_def)

lemma hostsDumped_trace:
  "\<exists>dump. trace (hostsDumped env w) =
       trace w @ [EvWritePidFile (PidFile (RuntimeOpts (options w))), EvKubernetes] @ dump
     \<and> inOrder 7 8 dump"
proof (cases "IsWindows env \<or> length (Dump2HostsNamespaces (ConnectOpts (options w))) > 0")
  case True
  then have "trace (hostsDumped env w) =
      trace w @ [EvWritePidFile (PidFile (RuntimeOpts (options w))), EvKubernetes]
        @ (map EvServiceHosts (Namespace (options w) #
            filter (\<lambda>namespace. namespace \<noteq> Namespace (options w))
              (Dump2HostsNamespaces (ConnectOpts (options w)))) @ [EvDumpHosts])"
    by (simp add: hostsDumped_def Let_def setupDump2Host_trace)
  then show ?thesis
    using dumpEvents_inOrder by blast
next
  case False
  then have "trace (hostsDumped env w) =
      trace w @ [EvWritePidFile (PidFile (RuntimeOpts (options w))), EvKubernetes] @ []"
    by (simp add: hostsDumped_def Let_def)
  then show ?thesis
    using inOrder_Nil by blast
qed

lemma inOrder_two: "inOrder 5 6 [EvWritePidFile pidFile, EvKubernetes]"
  by (simp add: inOrder_def)

lemma connectSetup_trace:
  "\<exists>evs. trace (snd (connectSetup c env w)) = trace w @ evs \<and> inOrder 5 10 evs"
proof (cases "IsDaemonRunning (PidFile (RuntimeOpts (options w))) w")
  case True
  then have "trace (snd (connectSetup c env w)) =
      trace w @ [EvWritePidFile (PidFile (RuntimeOpts (options w)))]"
    by (simp add: connectSetup_held)
  moreover have "inOrder 5 10 [EvWritePidFile (PidFile (RuntimeOpts (options w)))]"
    by (simp add: inOrder_def)
  ultimately show ?thesis
    by blast
next
  case False
  show ?thesis
  proof (cases "Kubernetes env")
    case (Some msg)
    then have "trace (snd (connectSetup c env w)) =
        trace w @ [EvWritePidFile (PidFile (RuntimeOpts (options w))), EvKubernetes]"
      using False by (simp add: connectSetup_kube)
    moreover have "inOrder 5 10 [EvWritePidFile (PidFile (RuntimeOpts (options w))), EvKubernetes]"
      by (simp add: inOrder_def)
    ultimately show ?thesis
      by blast
  next
    case None
    obtain dump where dump: "trace (hostsDumped env w) =
        trace w @ [EvWritePidFile (PidFile (RuntimeOpts (options w))), EvKubernetes] @ dump"
      and dumpOrder: "inOrder 7 8 dump"
      using hostsDumped_trace by blast
    have pre: "inOrder 5 8 ([EvWritePidFile (PidFile (RuntimeOpts (options w))), EvKubernetes] @ dump)"
      using inOrder_append [OF inOrder_two inOrder_widen [OF dumpOrder, of 6 8]] by simp
    show ?thesis
    proof (cases "Method (ConnectOpts (options w)) = ConnectMethodSocks c")
      case True
      obtain socks where socks: "trace (snd (setupSocksProxy env (hostsDumped env w))) =
          trace (hostsDumped env w) @ socks" and socksOrder: "inOrder 9 10 socks"
        using setupSocksProxy_inOrder by blast
      have "trace (snd (connectSetup c env w)) =
          trace w @ ([EvWritePidFile (PidFile (RuntimeOpts (options w))), EvKubernetes] @ dump) @ socks"
        using False None True by (simp add: connectSetup_reached socks dump)
      moreover have "inOrder 5 10
          (([EvWritePidFile (PidFile (RuntimeOpts (options w))), EvKubernetes] @ dump) @ socks)"
        using inOrder_append [OF pre inOrder_widen [OF socksOrder, of 8 10]] by simp
      ultimately show ?thesis
        by blast
    next
      case notSocks: False
      have "trace (snd (connectSetup c env w)) =
          trace w @ ([EvWritePidFile (PidFile (RuntimeOpts (options w))), EvKubernetes] @ dump)"
        using False None notSocks by (simp add: connectSetup_reached dump)
      moreover have "inOrder 5 10
          ([EvWritePidFile (PidFile (RuntimeOpts (options w))), EvKubernetes] @ dump)"
        using inOrder_widen [OF pre, of 5 10] by simp
      ultimately show ?thesis
        by blast
    qed
  qed
qed

lemma connectSetup_fields:
  "Shadow (RuntimeOpts (options (snd (connectSetup c env w)))) = Shadow (RuntimeOpts (options w))
   \<and> SSHCM (RuntimeOpts (options (snd (connectSetup c env w)))) = SSHCM (RuntimeOpts (options w))
   \<and> PidFile (RuntimeOpts (options (snd (connectSetup c env w)))) = PidFile (RuntimeOpts (options w))
   \<and> ConnectOpts (options (snd (connectSetup c env w))) = ConnectOpts (options w)
   \<and> Namespace (options (snd (connectSetup c env w))) = Namespace (options w)
   \<and> alive (snd (connectSetup c env w)) = alive w
   \<and> pidFiles (snd (connectSetup c env w)) =
       (if IsDaemonRunning (PidFile (RuntimeOpts (options w))) w then pidFiles w
        else (pidFiles w)(PidFile (RuntimeOpts (options w)) \<mapsto> selfPid env))"
proof (cases "IsDaemonRunning (PidFile (RuntimeOpts (options w))) w")
  case True
  then show ?thesis
    by (simp add: connectSetup_held)
next
  case False
  then show ?thesis
    by (cases "Kubernetes env") (simp_all add: connectSetup_kube connectSetup_reached)
qed

lemma connectSetup_error:
  assumes "fst (connectSetup c env w) = Inl e"
  shows "(IsDaemonRunning (PidFile (RuntimeOpts (options w))) w
            \<and> e = AlreadyRunning (PidFile (RuntimeOpts (options w))))
         \<or> (\<not> IsDaemonRunning (PidFile (RuntimeOpts (options w))) w
            \<and> (\<exists>msg. Kubernetes env = Some msg \<and> e = Collaborator msg))"
proof (cases "IsDaemonRunning (PidFile (RuntimeOpts (options w))) w")
  case True
  then show ?thesis
    using assms by (simp add: connectSetup_held)
next
  case False
  then show ?thesis
    using assms
    by (cases "Kubernetes env") (simp_all add: connectSetup_kube connectSetup_reached split: if_splits)
qed

subsection \<open>connectTunnel\<close>

lemma getOrCreateShadow_err: "getOrCreateShadow c env err w = getOrCreateShadow c env None w"
  by (simp add: getOrCreateShadow_def)

lemma connectTunnel_err: "connectTunnel c env err w = connectTunnel c env None w"
  by (simp add: connectTunnel_def getOrCreateShadow_err [of c env err w])

lemma getOrCreateShadow_failure:
  assumes "fst (getOrCreateShadow c env err w) = Inl e"
  shows "getOrCreateShadow c env err w =
      (Inl e, emit (EvGetOrCreateShadow (workloadName env (options w))) w)
    \<and> (\<exists>msg. e = Collaborator msg)"
  using assms by (auto simp: getOrCreateShadow_def Let_def split: sum.splits prod.splits)

lemma getOrCreateShadow_fields [simp]:
  "pidFiles (snd (getOrCreateShadow c env err w)) = pidFiles w"
  "alive (snd (getOrCreateShadow c env err w)) = alive w"
  "Namespace (options (snd (getOrCreateShadow c env err w))) = Namespace (options w)"
  "ConnectOpts (options (snd (getOrCreateShadow c env err w))) = ConnectOpts (options w)"
  by (simp_all add: getOrCreateShadow_def Let_def split: sum.splits prod.splits)

lemma connectTunnel_failure:
  assumes "fst (getOrCreateShadow c env err w) = Inl e"
  shows "connectTunnel c env err w =
     (Some e, emit (EvGetOrCreateShadow (workloadName env (options w))) w)"
  using getOrCreateShadow_failure [OF assms] by (simp add: connectTunnel_def)

lemma connectTunnel_trace:
  "\<exists>evs. trace (snd (connectTunnel c env err w)) =
       trace w @ EvGetOrCreateShadow (workloadName env (options w)) # evs
     \<and> inOrder 12 13 evs"
proof (cases "getOrCreateShadow c env err w")
  case (Pair r w5)
  then have w5: "trace w5 = trace w @ [EvGetOrCreateShadow (workloadName env (options w))]"
    using getOrCreateShadow_trace [of c env err w] by simp
  show ?thesis
  proof (cases r)
    case (Inl e)
    then have "trace (snd (connectTunnel c env err w)) =
        trace w @ EvGetOrCreateShadow (workloadName env (options w)) # []"
      using Pair w5 by (simp add: connectTunnel_def)
    then show ?thesis
      using inOrder_Nil by blast
  next
    case (Inr res)
    obtain endPointIP podName credential where res: "res = (endPointIP, podName, credential)"
      by (cases res) auto
    show ?thesis
    proof (cases "ClusterCrids env (Namespace (options w5)) (ConnectOpts (options w5))")
      case (Inl msg)
      then have "trace (snd (connectTunnel c env err w)) =
          trace w @ EvGetOrCreateShadow (workloadName env (options w))
            # [EvClusterCrids (Namespace (options w5))]"
        using Pair Inr res w5 by (simp add: connectTunnel_def Let_def)
      moreover have "inOrder 12 13 [EvClusterCrids (Namespace (options w5))]"
        by (simp add: inOrder_def)
      ultimately show ?thesis
        by blast
    next
      case cidrs: (Inr cidrs)
      then have "trace (snd (connectTunnel c env err w)) =
          trace w @ EvGetOrCreateShadow (workloadName env (options w))
            # [EvClusterCrids (Namespace (options w5)), EvOutbound podName endPointIP]"
        using Pair Inr res w5 by (simp add: connectTunnel_def Let_def)
      moreover have "inOrder 12 13
          [EvClusterCrids (Namespace (options w5)), EvOutbound podName endPointIP]"
        by (simp add: inOrder_def)
      ultimately show ?thesis
        by blast
    qed
  qed
qed

lemma connectTunnel_fields:
  "pidFiles (snd (connectTunnel c env err w)) = pidFiles w
   \<and> alive (snd (connectTunnel c env err w)) = alive w
   \<and> (\<forall>f. fst (connectTunnel c env err w) \<noteq> Some (AlreadyRunning f))"
proof (cases "getOrCreateShadow c env err w")
  case (Pair r w5)
  then have w5: "pidFiles w5 = pidFiles w" "alive w5 = alive w"
    using getOrCreateShadow_fields(1,2) [of c env err w] by simp_all
  show ?thesis
  proof (cases r)
    case (Inl e)
    then obtain msg where "e = Collaborator msg"
      using getOrCreateShadow_failure [of c env err w e] Pair by auto
    then show ?thesis
      using Pair Inl w5 by (simp add: connectTunnel_def)
  next
    case (Inr res)
    then show ?thesis
      using Pair w5
      by (cases res; cases "ClusterCrids env (Namespace (options w5)) (ConnectOpts (options w5))")
        (auto simp: connectTunnel_def Let_def)
  qed
qed

subsection \<open>connectToCluster and Connect\<close>

lemma inOrder_Cons:
  "lo \<le> stepOrder ev \<Longrightarrow> stepOrder ev \<le> mid \<Longrightarrow> inOrder mid hi evs \<Longrightarrow> mid \<le> hi \<Longrightarrow>
     inOrder lo hi (ev # evs)"
  by (fastforce simp: inOrder_def list_all_iff)

lemma connectToCluster_Inl:
  "fst (connectSetup c env w) = Inl e \<Longrightarrow>
     connectToCluster c env w = (Some e, snd (connectSetup c env w))"
  by (cases "connectSetup c env w") (simp add: connectToCluster_def)

lemma connectToCluster_Inr:
  "fst (connectSetup c env w) = Inr err \<Longrightarrow>
     connectToCluster c env w = connectTunnel c env err (snd (connectSetup c env w))"
  by (cases "connectSetup c env w") (simp add: connectToCluster_def)

lemma connectToCluster_held:
  assumes "IsDaemonRunning (PidFile (RuntimeOpts (options w))) w"
  shows "connectToCluster c env w =
     (Some (AlreadyRunning (PidFile (RuntimeOpts (options w)))),
      emit (EvWritePidFile (PidFile (RuntimeOpts (options w)))) w)"
  using connectToCluster_Inl [of c env w] connectSetup_held [OF assms, of c env] by simp

lemma connectSetup_first:
  "\<exists>evs. trace (snd (connectSetup c env w)) =
     trace w @ EvWritePidFile (PidFile (RuntimeOpts (options w))) # evs"
proof (cases "IsDaemonRunning (PidFile (RuntimeOpts (options w))) w")
  case True
  then show ?thesis
    by (simp add: connectSetup_held)
next
  case False
  show ?thesis
  proof (cases "Kubernetes env")
    case (Some msg)
    then show ?thesis
      using False by (simp add: connectSetup_kube)
  next
    case None
    obtain dump where dump: "trace (hostsDumped env w) =
        trace w @ [EvWritePidFile (PidFile (RuntimeOpts (options w))), EvKubernetes] @ dump"
      using hostsDumped_trace by blast
    obtain socks where socks: "trace (snd (setupSocksProxy env (hostsDumped env w))) =
        trace (hostsDumped env w) @ socks"
      using setupSocksProxy_inOrder by blast
    show ?thesis
      using False None by (simp add: connectSetup_reached dump socks)
  qed
qed

lemma connectToCluster_trace:
  "\<exists>evs. trace (snd (connectToCluster c env w)) = trace w @ evs \<and> inOrder 5 13 evs"
proof -
  obtain evs1 where evs1: "trace (snd (connectSetup c env w)) = trace w @ evs1"
    and order1: "inOrder 5 10 evs1"
    using connectSetup_trace by blast
  show ?thesis
  proof (cases "fst (connectSetup c env w)")
    case (Inl e)
    then have "trace (snd (connectToCluster c env w)) = trace w @ evs1"
      by (simp add: connectToCluster_Inl evs1)
    then show ?thesis
      using inOrder_widen [OF order1, of 5 13] by auto
  next
    case (Inr err)
    obtain evs2 where evs2: "trace (snd (connectTunnel c env err (snd (connectSetup c env w)))) =
        trace (snd (connectSetup c env w))
          @ EvGetOrCreateShadow (workloadName env (options (snd (connectSetup c env w)))) # evs2"
      and order2: "inOrder 12 13 evs2"
      using connectTunnel_trace by blast
    have "inOrder 10 13
        (EvGetOrCreateShadow (workloadName env (options (snd (connectSetup c env w)))) # evs2)"
      using inOrder_Cons [OF _ _ order2, of 10] by simp
    then have "inOrder 5 13 (evs1
        @ EvGetOrCreateShadow (workloadName env (options (snd (connectSetup c env w)))) # evs2)"
      using inOrder_append [OF order1] by simp
    moreover have "trace (snd (connectToCluster c env w)) = trace w @ (evs1
        @ EvGetOrCreateShadow (workloadName env (options (snd (connectSetup c env w)))) # evs2)"
      using Inr by (simp add: connectToCluster_Inr evs1 evs2)
    ultimately show ?thesis
      by blast
  qed
qed

lemma connectToCluster_first:
  "\<exists>evs. trace (snd (connectToCluster c env w)) =
     trace w @ EvWritePidFile (PidFile (RuntimeOpts (options w))) # evs"
proof -
  obtain evs1 where evs1: "trace (snd (connectSetup c env w)) =
      trace w @ EvWritePidFile (PidFile (RuntimeOpts (options w))) # evs1"
    using connectSetup_first by blast
  show ?thesis
  proof (cases "fst (connectSetup c env w)")
    case (Inl e)
    then show ?thesis
      by (simp add: connectToCluster_Inl evs1)
  next
    case (Inr err)
    obtain evs2 where "trace (snd (connectTunnel c env err (snd (connectSetup c env w)))) =
        trace (snd (connectSetup c env w))
          @ EvGetOrCreateShadow (workloadName env (options (snd (connectSetup c env w)))) # evs2"
      using connectTunnel_trace by blast
    then show ?thesis
      using Inr by (simp add: connectToCluster_Inr evs1)
  qed
qed

lemma connectToCluster_free:
  assumes "\<not> IsDaemonRunning (PidFile (RuntimeOpts (options w))) w"
  shows "pidFiles (snd (connectToCluster c env w)) =
      (pidFiles w)(PidFile (RuntimeOpts (options w)) \<mapsto> selfPid env)
    \<and> alive (snd (connectToCluster c env w)) = alive w
    \<and> (\<forall>f. fst (connectToCluster c env w) \<noteq> Some (AlreadyRunning f))"
proof (cases "fst (connectSetup c env w)")
  case (Inl e)
  then obtain msg where "e = Collaborator msg"
    using connectSetup_error [of c env w e] assms by auto
  then show ?thesis
    using Inl assms connectSetup_fields [of c env w] by (simp add: connectToCluster_Inl)
next
  case (Inr err)
  then show ?thesis
    using assms connectSetup_fields [of c env w]
      connectTunnel_fields [of c env err "snd (connectSetup c env w)"]
    by (simp add: connectToCluster_Inr)
qed

lemma Connect_held:
  assumes "IsDaemonRunning (PidFile (RuntimeOpts (options w))) w"
  shows "Connect c env w =
     (Some (AlreadyRunning (PidFile (RuntimeOpts (options w)))),
      emit (EvIsDaemonRunning (PidFile (RuntimeOpts (options w)))) w)"
  using assms by (simp add: Connect_def Let_def)

lemma Connect_free:
  assumes "\<not> IsDaemonRunning (PidFile (RuntimeOpts (options w))) w"
  shows "Connect c env w =
     (case connectToCluster c env
             (emit EvSetUpCloseHandler
                (emit (EvIsDaemonRunning (PidFile (RuntimeOpts (options w)))) w)) of
        (Some err, w2) \<Rightarrow> (Some err, w2)
      | (None, w2) \<Rightarrow> (None, emit EvWaitSignal (emit EvWatchInterrupt w2)))"
  using assms by (simp add: Connect_def Let_def)

lemma Connect_failure:
  assumes "\<not> IsDaemonRunning (PidFile (RuntimeOpts (options w))) w"
    and "fst (connectToCluster c env
             (emit EvSetUpCloseHandler
                (emit (EvIsDaemonRunning (PidFile (RuntimeOpts (options w)))) w))) = Some e"
  shows "Connect c env w =
     connectToCluster c env
       (emit EvSetUpCloseHandler (emit (EvIsDaemonRunning (PidFile (RuntimeOpts (options w)))) w))"
  using assms(2) unfolding Connect_free [OF assms(1)]
  by (cases "connectToCluster c env
       (emit EvSetUpCloseHandler (emit (EvIsDaemonRunning (PidFile (RuntimeOpts (options w)))) w))")
     simp

subsection \<open>The exclusivity lock (C9)\<close>

lemma removePidFile_fields [simp]:
  "options (removePidFile pidFile w) = options w"
  "alive (removePidFile pidFile w) = alive w"
  "trace (removePidFile pidFile w) = trace w"
  "pidFiles (removePidFile pidFile w) = (pidFiles w)(pidFile := None)"
  "\<not> IsDaemonRunning pidFile (removePidFile pidFile w)"
  by (simp_all add: removePidFile_def IsDaemonRunning_def)

lemma Connect_free_facts:
  assumes "\<not> IsDaemonRunning (PidFile (RuntimeOpts (options w))) w"
  shows "pidFiles (snd (Connect c env w)) =
      (pidFiles w)(PidFile (RuntimeOpts (options w)) \<mapsto> selfPid env)
    \<and> (\<forall>f. fst (Connect c env w) \<noteq> Some (AlreadyRunning f))
    \<and> (\<exists>evs. trace (snd (Connect c env w)) =
          trace w @ EvIsDaemonRunning (PidFile (RuntimeOpts (options w))) # EvSetUpCloseHandler
            # EvWritePidFile (PidFile (RuntimeOpts (options w))) # evs)"
proof -
  let ?pf = "PidFile (RuntimeOpts (options w))"
  let ?w1 = "emit EvSetUpCloseHandler (emit (EvIsDaemonRunning ?pf) w)"
  obtain r w2 where run: "connectToCluster c env ?w1 = (r, w2)"
    by (cases "connectToCluster c env ?w1") auto
  have free: "\<not> IsDaemonRunning (PidFile (RuntimeOpts (options ?w1))) ?w1"
    using assms by simp
  have pid: "pidFiles w2 = (pidFiles w)(?pf \<mapsto> selfPid env)"
    and err: "\<forall>f. r \<noteq> Some (AlreadyRunning f)"
    using connectToCluster_free [OF free, of c env] run by simp_all
  obtain evs where evs: "trace w2 =
      trace w @ EvIsDaemonRunning ?pf # EvSetUpCloseHandler # EvWritePidFile ?pf # evs"
    using connectToCluster_first [of c env ?w1] run by auto
  show ?thesis
  proof (cases r)
    case None
    then have "Connect c env w = (None, emit EvWaitSignal (emit EvWatchInterrupt w2))"
      using run by (simp add: Connect_free [OF assms])
    then show ?thesis
      using pid evs by simp
  next
    case (Some e)
    then have "Connect c env w = (Some e, w2)"
      using run by (simp add: Connect_free [OF assms])
    then show ?thesis
      using pid evs err Some by simp
  qed
qed

text \<open>
  C9. When the lock file of the options exists and its owner is alive, \<^verbatim>\<open>Connect\<close>
  returns \<open>AlreadyRunning\<close> and changes nothing but the trace, to which it adds the check
  of the lock alone: no pid file is written and no setup step is performed. The call of
  \<^verbatim>\<open>util.WritePidFile\<close> in \<^verbatim>\<open>connectToCluster\<close> fails in the same way in that world.
  Once the owner has removed the file, the acquisition succeeds: \<^verbatim>\<open>util.WritePidFile\<close>
  writes the identity of the current process, \<^verbatim>\<open>Connect\<close> checks the lock, installs the
  close handler and writes the pid file, the file holds the identity of the current
  process afterwards, and whatever \<^verbatim>\<open>Connect\<close> returns is not \<open>AlreadyRunning\<close>.
\<close>

theorem lock_held_then_released:
  assumes "pidFiles w (PidFile (RuntimeOpts (options w))) = Some owner"
    and "owner \<in> alive w"
  shows "Connect c env w =
      (Some (AlreadyRunning (PidFile (RuntimeOpts (options w)))),
       emit (EvIsDaemonRunning (PidFile (RuntimeOpts (options w)))) w)
    \<and> pidFiles (snd (Connect c env w)) = pidFiles w
    \<and> newEvents w (snd (Connect c env w)) = [EvIsDaemonRunning (PidFile (RuntimeOpts (options w)))]
    \<and> connectToCluster c env w =
        (Some (AlreadyRunning (PidFile (RuntimeOpts (options w)))),
         emit (EvWritePidFile (PidFile (RuntimeOpts (options w)))) w)
    \<and> WritePidFile (selfPid env) (PidFile (RuntimeOpts (options w))) w =
        (Inl (AlreadyRunning (PidFile (RuntimeOpts (options w)))), w)
    \<and> WritePidFile (selfPid env) (PidFile (RuntimeOpts (options w)))
          (removePidFile (PidFile (RuntimeOpts (options w))) w) =
        (Inr (selfPid env),
         w\<lparr>pidFiles := (pidFiles w)(PidFile (RuntimeOpts (options w)) \<mapsto> selfPid env)\<rparr>)
    \<and> (\<forall>f. fst (Connect c env (removePidFile (PidFile (RuntimeOpts (options w))) w)) \<noteq>
          Some (AlreadyRunning f))
    \<and> pidFiles (snd (Connect c env (removePidFile (PidFile (RuntimeOpts (options w))) w))) =
        (pidFiles w)(PidFile (RuntimeOpts (options w)) \<mapsto> selfPid env)
    \<and> (\<exists>evs. newEvents (removePidFile (PidFile (RuntimeOpts (options w))) w)
                (snd (Connect c env (removePidFile (PidFile (RuntimeOpts (options w))) w))) =
          EvIsDaemonRunning (PidFile (RuntimeOpts (options w))) # EvSetUpCloseHandler
            # EvWritePidFile (PidFile (RuntimeOpts (options w))) # evs)"
proof -
  let ?pf = "PidFile (RuntimeOpts (options w))"
  let ?r = "removePidFile ?pf w"
  have held: "IsDaemonRunning ?pf w"
    using assms by (simp add: IsDaemonRunning_def)
  have free: "\<not> IsDaemonRunning (PidFile (RuntimeOpts (options ?r))) ?r"
    by simp
  have run: "Connect c env w = (Some (AlreadyRunning ?pf), emit (EvIsDaemonRunning ?pf) w)"
    using held by (rule Connect_held)
  have acquire: "WritePidFile (selfPid env) ?pf ?r =
      (Inr (selfPid env), w\<lparr>pidFiles := (pidFiles w)(?pf \<mapsto> selfPid env)\<rparr>)"
    by (simp add: WritePidFile_free removePidFile_def IsDaemonRunning_def)
  obtain evs where evs: "trace (snd (Connect c env ?r)) =
      trace ?r @ EvIsDaemonRunning ?pf # EvSetUpCloseHandler # EvWritePidFile ?pf # evs"
    using Connect_free_facts [OF free, of c env] by auto
  have "newEvents ?r (snd (Connect c env ?r)) =
      EvIsDaemonRunning ?pf # EvSetUpCloseHandler # EvWritePidFile ?pf # evs"
    using evs by (rule newEvents_append)
  moreover have "pidFiles (snd (Connect c env ?r)) = (pidFiles w)(?pf \<mapsto> selfPid env)"
    using Connect_free_facts [OF free, of c env] by simp
  moreover have "\<forall>f. fst (Connect c env ?r) \<noteq> Some (AlreadyRunning f)"
    using Connect_free_facts [OF free, of c env] by simp
  moreover have "newEvents w (snd (Connect c env w)) = [EvIsDaemonRunning ?pf]"
    by (simp add: run)
  moreover have "pidFiles (snd (Connect c env w)) = pidFiles w"
    by (simp add: run)
  ultimately show ?thesis
    using run acquire connectToCluster_held [OF held, of c env] WritePidFile_held [OF held, of "selfPid env"]
    by blast
qed

lemma sample_held:
  "PidFile (RuntimeOpts (options heldWorld)) = ''/tmp/kt.pid''"
  "pidFiles heldWorld ''/tmp/kt.pid'' = Some 7"
  "alive heldWorld = {7}"
  "trace heldWorld = []"
  "selfPid sampleEnv = 42"
  by (simp_all add: heldWorld_def sampleWorld_def freshOptions_def sampleOptions_def sampleEnv_def)

lemma sample_released_run:
  "fst (Connect sampleCommon sampleEnv (removePidFile ''/tmp/kt.pid'' heldWorld)) = None"
  "trace (snd (Connect sampleCommon sampleEnv (removePidFile ''/tmp/kt.pid'' heldWorld))) =
     [EvIsDaemonRunning ''/tmp/kt.pid'', EvSetUpCloseHandler, EvWritePidFile ''/tmp/kt.pid'',
      EvKubernetes, EvServiceHosts ''ns1'', EvServiceHosts ''ns2'', EvDumpHosts,
      EvGetOrCreateShadow ''kt-connect-daemon-connect-shared'', EvClusterCrids ''ns1'',
      EvOutbound ''kt-connect-daemon-connect-shared-pod'' ''172.16.0.9'',
      EvWatchInterrupt, EvWaitSignal]"
  by (simp_all add: Connect_def connectToCluster_def connectSetup_def connectTunnel_def
      getOrCreateShadow_def workloadName_def setupDump2Host_def WritePidFile_def
      IsDaemonRunning_def removePidFile_def heldWorld_def sampleWorld_def freshOptions_def
      sampleOptions_def sampleEnv_def sampleCommon_def Let_def)

theorem lock_held_then_released_witness:
  "pidFiles heldWorld (PidFile (RuntimeOpts (options heldWorld))) = Some 7
   \<and> 7 \<in> alive heldWorld
   \<and> PidFile (RuntimeOpts (options heldWorld)) = ''/tmp/kt.pid''
   \<and> Connect sampleCommon sampleEnv heldWorld =
       (Some (AlreadyRunning ''/tmp/kt.pid''), emit (EvIsDaemonRunning ''/tmp/kt.pid'') heldWorld)
   \<and> pidFiles (snd (Connect sampleCommon sampleEnv heldWorld)) ''/tmp/kt.pid'' = Some 7
   \<and> trace (snd (Connect sampleCommon sampleEnv heldWorld)) = [EvIsDaemonRunning ''/tmp/kt.pid'']
   \<and> connectToCluster sampleCommon sampleEnv heldWorld =
       (Some (AlreadyRunning ''/tmp/kt.pid''), emit (EvWritePidFile ''/tmp/kt.pid'') heldWorld)
   \<and> fst (WritePidFile 42 ''/tmp/kt.pid'' (removePidFile ''/tmp/kt.pid'' heldWorld)) = Inr 42
   \<and> fst (Connect sampleCommon sampleEnv (removePidFile ''/tmp/kt.pid'' heldWorld)) = None
   \<and> pidFiles (snd (Connect sampleCommon sampleEnv (removePidFile ''/tmp/kt.pid'' heldWorld)))
        ''/tmp/kt.pid'' = Some 42
   \<and> trace (snd (Connect sampleCommon sampleEnv (removePidFile ''/tmp/kt.pid'' heldWorld))) =
       [EvIsDaemonRunning ''/tmp/kt.pid'', EvSetUpCloseHandler, EvWritePidFile ''/tmp/kt.pid'',
        EvKubernetes, EvServiceHosts ''ns1'', EvServiceHosts ''ns2'', EvDumpHosts,
        EvGetOrCreateShadow ''kt-connect-daemon-connect-shared'', EvClusterCrids ''ns1'',
        EvOutbound ''kt-connect-daemon-connect-shared-pod'' ''172.16.0.9'',
        EvWatchInterrupt, EvWaitSignal]"
proof -
  have held: "pidFiles heldWorld (PidFile (RuntimeOpts (options heldWorld))) = Some 7"
    and live: "7 \<in> alive heldWorld"
    by (simp_all add: sample_held)
  note claim = lock_held_then_released [OF held live, of sampleCommon sampleEnv,
      unfolded sample_held(1) sample_held(5)]
  have "pidFiles (snd (Connect sampleCommon sampleEnv heldWorld)) ''/tmp/kt.pid'' = Some 7"
    using claim by (simp add: sample_held)
  moreover have "trace (snd (Connect sampleCommon sampleEnv heldWorld)) =
      [EvIsDaemonRunning ''/tmp/kt.pid'']"
    using claim by (simp add: sample_held)
  moreover have "fst (WritePidFile 42 ''/tmp/kt.pid'' (removePidFile ''/tmp/kt.pid'' heldWorld)) =
      Inr 42"
    using claim by simp
  moreover have "pidFiles (snd (Connect sampleCommon sampleEnv
      (removePidFile ''/tmp/kt.pid'' heldWorld))) ''/tmp/kt.pid'' = Some 42"
    using claim by simp
  ultimately show ?thesis
    using claim held live sample_held(1) sample_released_run by blast
qed

subsection \<open>A shadow that cannot be created (C7)\<close>

lemma dumpNamespaces_env:
  "ServiceHosts env' = ServiceHosts env \<Longrightarrow>
     dumpNamespaces env' primary namespaces hosts = dumpNamespaces env primary namespaces hosts"
  by (induction namespaces arbitrary: hosts) simp_all

lemma setupDump2Host_env:
  "setupDump2Host (env\<lparr>ClusterCrids := crids, Outbound := outbound\<rparr>) w = setupDump2Host env w"
proof -
  have "dumpNamespaces (env\<lparr>ClusterCrids := crids, Outbound := outbound\<rparr>) primary namespaces hosts =
      dumpNamespaces env primary namespaces hosts" for primary namespaces hosts
    by (rule dumpNamespaces_env) simp
  then show ?thesis
    by (simp add: setupDump2Host_def mergedHosts_def Let_def)
qed

lemma setupSocksProxy_env:
  "setupSocksProxy (env\<lparr>ClusterCrids := crids, Outbound := outbound\<rparr>) w = setupSocksProxy env w"
  by (simp add: setupSocksProxy_def Let_def)

lemma connectSetup_env:
  "connectSetup c (env\<lparr>ClusterCrids := crids, Outbound := outbound\<rparr>) w = connectSetup c env w"
  unfolding connectSetup_def setupDump2Host_env setupSocksProxy_env
  by (simp cong: prod.case_cong sum.case_cong option.case_cong)

lemma getOrCreateShadow_env:
  "getOrCreateShadow c (env\<lparr>ClusterCrids := crids, Outbound := outbound\<rparr>) err w =
     getOrCreateShadow c env err w"
  by (simp add: getOrCreateShadow_def workloadName_def Let_def)

text \<open>
  C7. When \<^verbatim>\<open>connectToCluster\<close> reaches the call of \<^verbatim>\<open>getOrCreateShadow\<close> and the
  cluster's \<^verbatim>\<open>GetOrCreateShadow\<close>, called with the workload name, the options, the
  labels, no annotation and the environment variables, fails, then \<^verbatim>\<open>connectToCluster\<close>
  returns that error at once: the world is the one in which the call was made with the
  event of the call added, so the options are unchanged and \<open>Shadow\<close> and \<open>SSHCM\<close> are
  what they were when \<^verbatim>\<open>connectToCluster\<close> was entered; the run has queried no CIDR of
  the cluster and handed nothing to the transport, and its outcome is the same whatever
  these two collaborators would do. \<^verbatim>\<open>Connect\<close> returns the same error and world, without
  starting the watcher or waiting for a signal.
\<close>

theorem shadow_failure_aborts:
  assumes "connectSetup c env w = (Inr err, w4)"
    and "GetOrCreateShadow env (workloadName env (options w4)) (options w4)
           (labels c (String2Map env (Labels (options w4))) (workloadName env (options w4)))
           Map.empty (envs c (options w4)) = Inl msg"
  shows "connectToCluster c env w =
      (Some (Collaborator msg), emit (EvGetOrCreateShadow (workloadName env (options w4))) w4)
    \<and> options (snd (connectToCluster c env w)) = options w4
    \<and> Shadow (RuntimeOpts (options (snd (connectToCluster c env w)))) =
        Shadow (RuntimeOpts (options w))
    \<and> SSHCM (RuntimeOpts (options (snd (connectToCluster c env w)))) =
        SSHCM (RuntimeOpts (options w))
    \<and> (\<forall>namespace. EvClusterCrids namespace \<notin> set (newEvents w (snd (connectToCluster c env w))))
    \<and> (\<forall>podName endPointIP.
          EvOutbound podName endPointIP \<notin> set (newEvents w (snd (connectToCluster c env w))))
    \<and> (\<forall>crids outbound.
          connectToCluster c (env\<lparr>ClusterCrids := crids, Outbound := outbound\<rparr>) w =
            connectToCluster c env w)
    \<and> (\<forall>w0. \<not> IsDaemonRunning (PidFile (RuntimeOpts (options w0))) w0
            \<and> w = emit EvSetUpCloseHandler
                    (emit (EvIsDaemonRunning (PidFile (RuntimeOpts (options w0)))) w0) \<longrightarrow>
          Connect c env w0 = connectToCluster c env w)"
proof -
  let ?name = "workloadName env (options w4)"
  have reached: "fst (connectSetup c env w) = Inr err" "snd (connectSetup c env w) = w4"
    using assms(1) by simp_all
  have fail: "fst (getOrCreateShadow c env err w4) = Inl (Collaborator msg)"
    using assms(2) by (simp add: getOrCreateShadow_call)
  have run: "connectToCluster c env w = (Some (Collaborator msg), emit (EvGetOrCreateShadow ?name) w4)"
    using connectTunnel_failure [OF fail] by (simp add: connectToCluster_Inr [OF reached(1)] reached(2))
  have fields: "Shadow (RuntimeOpts (options w4)) = Shadow (RuntimeOpts (options w))"
    "SSHCM (RuntimeOpts (options w4)) = SSHCM (RuntimeOpts (options w))"
    using connectSetup_fields [of c env w] reached(2) by simp_all
  obtain evs where evs: "trace w4 = trace w @ evs" and order: "inOrder 5 10 evs"
    using connectSetup_trace [of c env w] reached(2) by auto
  have new: "newEvents w (snd (connectToCluster c env w)) = evs @ [EvGetOrCreateShadow ?name]"
    by (rule newEvents_append) (simp add: run evs)
  have early: "\<forall>ev \<in> set (evs @ [EvGetOrCreateShadow ?name]). stepOrder ev \<le> 11"
    using order by (fastforce simp: inOrder_def list_all_iff)
  have crids: "\<forall>namespace. EvClusterCrids namespace \<notin> set (newEvents w (snd (connectToCluster c env w)))"
    unfolding new using early by fastforce
  have outbound: "\<forall>podName endPointIP.
      EvOutbound podName endPointIP \<notin> set (newEvents w (snd (connectToCluster c env w)))"
    unfolding new using early by fastforce
  have same: "connectToCluster c (env\<lparr>ClusterCrids := crids, Outbound := outbound\<rparr>) w =
      connectToCluster c env w" for crids outbound
  proof -
    let ?env = "env\<lparr>ClusterCrids := crids, Outbound := outbound\<rparr>"
    have reached': "fst (connectSetup c ?env w) = Inr err" "snd (connectSetup c ?env w) = w4"
      using reached by (simp_all add: connectSetup_env)
    have fail': "fst (getOrCreateShadow c ?env err w4) = Inl (Collaborator msg)"
      using fail by (simp add: getOrCreateShadow_env)
    have "connectToCluster c ?env w =
        (Some (Collaborator msg), emit (EvGetOrCreateShadow (workloadName ?env (options w4))) w4)"
      using connectTunnel_failure [OF fail']
      by (simp add: connectToCluster_Inr [OF reached'(1)] reached'(2))
    then show ?thesis
      by (simp add: run workloadName_def)
  qed
  have top: "Connect c env w0 = connectToCluster c env w"
    if "\<not> IsDaemonRunning (PidFile (RuntimeOpts (options w0))) w0
        \<and> w = emit EvSetUpCloseHandler
                (emit (EvIsDaemonRunning (PidFile (RuntimeOpts (options w0)))) w0)" for w0
    using that Connect_failure [of w0 c env "Collaborator msg"] run by simp
  show ?thesis
    using run fields crids outbound same top by simp
qed

theorem shadow_failure_aborts_witness:
  "connectSetup sampleCommon failingEnv
       (emit EvSetUpCloseHandler (emit (EvIsDaemonRunning ''/tmp/kt.pid'') sampleWorld)) =
     (Inr None, hostsDumped failingEnv
        (emit EvSetUpCloseHandler (emit (EvIsDaemonRunning ''/tmp/kt.pid'') sampleWorld)))
   \<and> workloadName failingEnv (options (hostsDumped failingEnv
        (emit EvSetUpCloseHandler (emit (EvIsDaemonRunning ''/tmp/kt.pid'') sampleWorld)))) =
       ''kt-connect-daemon-connect-shared''
   \<and> \<not> IsDaemonRunning (PidFile (RuntimeOpts (options sampleWorld))) sampleWorld
   \<and> PidFile (RuntimeOpts (options sampleWorld)) = ''/tmp/kt.pid''
   \<and> fst (Connect sampleCommon failingEnv sampleWorld) = Some (Collaborator ''quota exceeded'')
   \<and> trace (snd (Connect sampleCommon failingEnv sampleWorld)) =
       [EvIsDaemonRunning ''/tmp/kt.pid'', EvSetUpCloseHandler, EvWritePidFile ''/tmp/kt.pid'',
        EvKubernetes, EvServiceHosts ''ns1'', EvServiceHosts ''ns2'', EvDumpHosts,
        EvGetOrCreateShadow ''kt-connect-daemon-connect-shared'']
   \<and> Shadow (RuntimeOpts (options (snd (Connect sampleCommon failingEnv sampleWorld)))) = []
   \<and> SSHCM (RuntimeOpts (options (snd (Connect sampleCommon failingEnv sampleWorld)))) = []
   \<and> connectToCluster sampleCommon
        (failingEnv\<lparr>ClusterCrids := \<lambda>namespace copts. Inl ''unreachable'',
                     Outbound := \<lambda>podName endPointIP credential cidrs. Some ''no route''\<rparr>)
        (emit EvSetUpCloseHandler (emit (EvIsDaemonRunning ''/tmp/kt.pid'') sampleWorld)) =
       connectToCluster sampleCommon failingEnv
        (emit EvSetUpCloseHandler (emit (EvIsDaemonRunning ''/tmp/kt.pid'') sampleWorld))"
proof -
  let ?w = "emit EvSetUpCloseHandler (emit (EvIsDaemonRunning ''/tmp/kt.pid'') sampleWorld)"
  let ?w4 = "hostsDumped failingEnv ?w"
  have pf: "PidFile (RuntimeOpts (options sampleWorld)) = ''/tmp/kt.pid''"
    by (simp add: sampleWorld_def sampleOptions_def)
  have free: "\<not> IsDaemonRunning (PidFile (RuntimeOpts (options sampleWorld))) sampleWorld"
    by (simp add: IsDaemonRunning_def sampleWorld_def)
  have free': "\<not> IsDaemonRunning (PidFile (RuntimeOpts (options ?w))) ?w"
    using free by simp
  have kube: "Kubernetes failingEnv = None"
    by (simp add: failingEnv_def sampleEnv_def)
  have tun: "Method (ConnectOpts (options ?w)) \<noteq> ConnectMethodSocks sampleCommon"
    by (simp add: sampleWorld_def sampleOptions_def sampleCommon_def)
  have reach: "connectSetup sampleCommon failingEnv ?w = (Inr None, ?w4)"
    using tun by (simp add: connectSetup_reached [OF free' kube])
  have refused: "GetOrCreateShadow failingEnv (workloadName failingEnv (options ?w4)) (options ?w4)
      (labels sampleCommon (String2Map failingEnv (Labels (options ?w4)))
         (workloadName failingEnv (options ?w4)))
      Map.empty (envs sampleCommon (options ?w4)) = Inl ''quota exceeded''"
    by (simp add: failingEnv_def)
  note claim = shadow_failure_aborts [OF reach refused]
  have name: "workloadName failingEnv (options ?w4) = ''kt-connect-daemon-connect-shared''"
    by (simp add: workloadName_def sampleWorld_def sampleOptions_def)
  have top: "Connect sampleCommon failingEnv sampleWorld =
      connectToCluster sampleCommon failingEnv ?w"
    using claim free pf by simp
  have run: "connectToCluster sampleCommon failingEnv ?w =
      (Some (Collaborator ''quota exceeded''),
       emit (EvGetOrCreateShadow ''kt-connect-daemon-connect-shared'') ?w4)"
    using claim name by simp
  have events: "trace ?w4 =
      [EvIsDaemonRunning ''/tmp/kt.pid'', EvSetUpCloseHandler, EvWritePidFile ''/tmp/kt.pid'',
       EvKubernetes, EvServiceHosts ''ns1'', EvServiceHosts ''ns2'', EvDumpHosts]"
    by (simp add: hostsDumped_def Let_def setupDump2Host_trace sampleWorld_def sampleOptions_def)
  have unset: "Shadow (RuntimeOpts (options ?w)) = []" "SSHCM (RuntimeOpts (options ?w)) = []"
    by (simp_all add: sampleWorld_def sampleOptions_def)
  have "Shadow (RuntimeOpts (options (snd (Connect sampleCommon failingEnv sampleWorld)))) = []"
    using claim [THEN conjunct2, THEN conjunct2, THEN conjunct1] unset(1) unfolding top by simp
  moreover have "SSHCM (RuntimeOpts (options (snd (Connect sampleCommon failingEnv sampleWorld)))) = []"
    using claim [THEN conjunct2, THEN conjunct2, THEN conjunct2, THEN conjunct1] unset(2)
    unfolding top by simp
  moreover have "fst (Connect sampleCommon failingEnv sampleWorld) =
      Some (Collaborator ''quota exceeded'')"
    by (simp add: top run)
  moreover have "trace (snd (Connect sampleCommon failingEnv sampleWorld)) =
      [EvIsDaemonRunning ''/tmp/kt.pid'', EvSetUpCloseHandler, EvWritePidFile ''/tmp/kt.pid'',
       EvKubernetes, EvServiceHosts ''ns1'', EvServiceHosts ''ns2'', EvDumpHosts,
       EvGetOrCreateShadow ''kt-connect-daemon-connect-shared'']"
    by (simp add: top run events)
  moreover have "connectToCluster sampleCommon
        (failingEnv\<lparr>ClusterCrids := \<lambda>namespace copts. Inl ''unreachable'',
                     Outbound := \<lambda>podName endPointIP credential cidrs. Some ''no route''\<rparr>) ?w =
       connectToCluster sampleCommon failingEnv ?w"
    using claim by blast
  ultimately show ?thesis
    using reach name free pf by blast
qed

subsection \<open>Proxies that cannot be registered (C8)\<close>

lemma setupSocksProxy_world:
  assumes "SetGlobalProxy env (SocksPort (ConnectOpts (options w)))
             (ProxyConfig (RuntimeOpts (options w))) = (err1, pc1)"
    and "SetHttpProxyEnvironmentVariable env (SocksPort (ConnectOpts (options w))) pc1 = (err2, pc2)"
  shows "setupSocksProxy env w =
     (map_option Collaborator err2,
      w\<lparr>options := (options w)\<lparr>RuntimeOpts := (RuntimeOpts (options w))\<lparr>ProxyConfig := pc2\<rparr>\<rparr>,
        trace := trace w @ [EvSetGlobalProxy (SocksPort (ConnectOpts (options w)))]
          @ proxyLog ''Failed to setup global connect proxy: '' err1
          @ [EvSetHttpProxyEnvironmentVariable (SocksPort (ConnectOpts (options w)))]
          @ proxyLog ''Failed to setup global http proxy: '' err2\<rparr>)"
  using assms
  by (simp add: setupSocksProxy_def Let_def emit_def proxyLog_def split: option.splits)

lemma connectTunnel_result:
  "fst (connectTunnel c env err w) =
     (case GetOrCreateShadow env (workloadName env (options w)) (options w)
             (labels c (String2Map env (Labels (options w))) (workloadName env (options w)))
             Map.empty (envs c (options w)) of
        Inl msg \<Rightarrow> Some (Collaborator msg)
      | Inr (endPointIP, podName, sshcm, credential) \<Rightarrow>
          (case ClusterCrids env (Namespace (options w)) (ConnectOpts (options w)) of
             Inl msg \<Rightarrow> Some (Collaborator msg)
           | Inr cidrs \<Rightarrow>
               map_option Collaborator (Outbound env podName endPointIP credential cidrs)))"
  by (simp add: connectTunnel_def getOrCreateShadow_def Let_def split: sum.splits prod.splits)

text \<open>
  C8. In a run of \<^verbatim>\<open>connectToCluster\<close> with the socks method that has written the pid
  file and obtained the handle of the cluster, \<^verbatim>\<open>registry.SetGlobalProxy\<close> is called with
  the socks port and the proxy configuration, its failure is logged, then
  \<^verbatim>\<open>registry.SetHttpProxyEnvironmentVariable\<close> is called with the port and the configuration
  the first call left, and its failure is logged: whatever the two calls return, the world
  when \<^verbatim>\<open>getOrCreateShadow\<close> is reached is the world after the host table with these two
  calls, their logs and the last configuration. The run goes on from there exactly as it
  does when the variable \<^verbatim>\<open>err\<close> is \<^verbatim>\<open>nil\<close>: its next step is the request of the
  shadow, and what it returns is decided by the shadow, the CIDRs of the cluster and the
  transport alone.
\<close>

theorem socks_proxy_failures_not_fatal:
  assumes "Method (ConnectOpts (options w)) = ConnectMethodSocks c"
    and "\<not> IsDaemonRunning (PidFile (RuntimeOpts (options w))) w"
    and "Kubernetes env = None"
    and "SetGlobalProxy env (SocksPort (ConnectOpts (options w)))
           (ProxyConfig (RuntimeOpts (options w))) = (err1, pc1)"
    and "SetHttpProxyEnvironmentVariable env (SocksPort (ConnectOpts (options w))) pc1 = (err2, pc2)"
  shows "\<exists>w4.
      w4 = (hostsDumped env w)
        \<lparr>options := (options (hostsDumped env w))
           \<lparr>RuntimeOpts := (RuntimeOpts (options (hostsDumped env w)))\<lparr>ProxyConfig := pc2\<rparr>\<rparr>,
         trace := trace (hostsDumped env w)
           @ [EvSetGlobalProxy (SocksPort (ConnectOpts (options w)))]
           @ proxyLog ''Failed to setup global connect proxy: '' err1
           @ [EvSetHttpProxyEnvironmentVariable (SocksPort (ConnectOpts (options w)))]
           @ proxyLog ''Failed to setup global http proxy: '' err2\<rparr>
      \<and> connectSetup c env w = (Inr (map_option Collaborator err2), w4)
      \<and> connectToCluster c env w = connectTunnel c env None w4
      \<and> (\<exists>evs. newEvents w4 (snd (connectToCluster c env w)) =
            EvGetOrCreateShadow (workloadName env (options w4)) # evs)
      \<and> fst (connectToCluster c env w) =
          (case GetOrCreateShadow env (workloadName env (options w4)) (options w4)
                  (labels c (String2Map env (Labels (options w4))) (workloadName env (options w4)))
                  Map.empty (envs c (options w4)) of
             Inl msg \<Rightarrow> Some (Collaborator msg)
           | Inr (endPointIP, podName, sshcm, credential) \<Rightarrow>
               (case ClusterCrids env (Namespace (options w4)) (ConnectOpts (options w4)) of
                  Inl msg \<Rightarrow> Some (Collaborator msg)
                | Inr cidrs \<Rightarrow>
                    map_option Collaborator (Outbound env podName endPointIP credential cidrs)))"
proof -
  let ?w3 = "hostsDumped env w"
  let ?w4 = "?w3\<lparr>options := (options ?w3)
           \<lparr>RuntimeOpts := (RuntimeOpts (options ?w3))\<lparr>ProxyConfig := pc2\<rparr>\<rparr>,
         trace := trace ?w3
           @ [EvSetGlobalProxy (SocksPort (ConnectOpts (options w)))]
           @ proxyLog ''Failed to setup global connect proxy: '' err1
           @ [EvSetHttpProxyEnvironmentVariable (SocksPort (ConnectOpts (options w)))]
           @ proxyLog ''Failed to setup global http proxy: '' err2\<rparr>"
  have socks: "setupSocksProxy env ?w3 = (map_option Collaborator err2, ?w4)"
    using setupSocksProxy_world [of env ?w3 err1 pc1 err2 pc2] assms(4,5) by simp
  have reach: "connectSetup c env w = (Inr (map_option Collaborator err2), ?w4)"
    using assms(1) by (simp add: connectSetup_reached [OF assms(2,3)] socks)
  have run: "connectToCluster c env w = connectTunnel c env None ?w4"
    using connectToCluster_Inr [of c env w "map_option Collaborator err2"] reach
      connectTunnel_err [of c env "map_option Collaborator err2" ?w4]
    by simp
  obtain evs where "trace (snd (connectTunnel c env None ?w4)) =
      trace ?w4 @ EvGetOrCreateShadow (workloadName env (options ?w4)) # evs"
    using connectTunnel_trace [of c env None ?w4] by blast
  then have next_step: "\<exists>evs. newEvents ?w4 (snd (connectToCluster c env w)) =
      EvGetOrCreateShadow (workloadName env (options ?w4)) # evs"
    unfolding run newEvents_def by simp
  show ?thesis
    using reach run next_step connectTunnel_result [of c env None ?w4]
    by (intro exI [of _ ?w4] conjI) (simp_all only: )
qed

lemma sample_socks_name:
  "ConnectOpts opts = ConnectOpts socksOptions \<Longrightarrow>
     workloadName sampleEnv opts = ''kt-connect-daemon-abcde''"
  by (simp add: workloadName_def sampleEnv_def socksOptions_def sampleOptions_def
      ToLower_def isASCII_def lowerByte_def char_of_eq_iff)

theorem socks_proxy_failures_not_fatal_witness:
  "Method (ConnectOpts (options socksWorld)) = ConnectMethodSocks sampleCommon
   \<and> \<not> IsDaemonRunning (PidFile (RuntimeOpts (options socksWorld))) socksWorld
   \<and> Kubernetes sampleEnv = None
   \<and> SetGlobalProxy sampleEnv (SocksPort (ConnectOpts (options socksWorld)))
        (ProxyConfig (RuntimeOpts (options socksWorld))) = (Some ''access denied'', ())
   \<and> SetHttpProxyEnvironmentVariable sampleEnv (SocksPort (ConnectOpts (options socksWorld))) () =
        (Some ''access denied'', ())
   \<and> fst (connectSetup sampleCommon sampleEnv socksWorld) =
        Inr (Some (Collaborator ''access denied''))
   \<and> trace (snd (connectSetup sampleCommon sampleEnv socksWorld)) =
       [EvWritePidFile ''/tmp/kt.pid'', EvKubernetes, EvServiceHosts ''ns1'',
        EvServiceHosts ''ns2'', EvDumpHosts, EvSetGlobalProxy 2223,
        EvLogError ''Failed to setup global connect proxy: access denied'',
        EvSetHttpProxyEnvironmentVariable 2223,
        EvLogError ''Failed to setup global http proxy: access denied'']
   \<and> fst (connectToCluster sampleCommon sampleEnv socksWorld) = None
   \<and> trace (snd (connectToCluster sampleCommon sampleEnv socksWorld)) =
       [EvWritePidFile ''/tmp/kt.pid'', EvKubernetes, EvServiceHosts ''ns1'',
        EvServiceHosts ''ns2'', EvDumpHosts, EvSetGlobalProxy 2223,
        EvLogError ''Failed to setup global connect proxy: access denied'',
        EvSetHttpProxyEnvironmentVariable 2223,
        EvLogError ''Failed to setup global http proxy: access denied'',
        EvGetOrCreateShadow ''kt-connect-daemon-abcde'', EvClusterCrids ''ns1'',
        EvOutbound ''kt-connect-daemon-abcde-pod'' ''172.16.0.9'']"
proof -
  have opts: "options socksWorld = socksOptions" "trace socksWorld = []"
    "pidFiles socksWorld = Map.empty"
    by (simp_all add: socksWorld_def sampleWorld_def)
  have socks: "Method (ConnectOpts (options socksWorld)) = ConnectMethodSocks sampleCommon"
    by (simp add: opts socksOptions_def sampleOptions_def sampleCommon_def)
  have free: "\<not> IsDaemonRunning (PidFile (RuntimeOpts (options socksWorld))) socksWorld"
    by (simp add: IsDaemonRunning_def opts)
  have kube: "Kubernetes sampleEnv = None"
    by (simp add: sampleEnv_def)
  have first: "SetGlobalProxy sampleEnv (SocksPort (ConnectOpts (options socksWorld)))
      (ProxyConfig (RuntimeOpts (options socksWorld))) = (Some ''access denied'', ())"
    by (simp add: sampleEnv_def)
  have second: "SetHttpProxyEnvironmentVariable sampleEnv
      (SocksPort (ConnectOpts (options socksWorld))) () = (Some ''access denied'', ())"
    by (simp add: sampleEnv_def)
  obtain w4 where w4: "w4 = (hostsDumped sampleEnv socksWorld)
        \<lparr>options := (options (hostsDumped sampleEnv socksWorld))
           \<lparr>RuntimeOpts := (RuntimeOpts (options (hostsDumped sampleEnv socksWorld)))
              \<lparr>ProxyConfig := ()\<rparr>\<rparr>,
         trace := trace (hostsDumped sampleEnv socksWorld)
           @ [EvSetGlobalProxy (SocksPort (ConnectOpts (options socksWorld)))]
           @ proxyLog ''Failed to setup global connect proxy: '' (Some ''access denied'')
           @ [EvSetHttpProxyEnvironmentVariable (SocksPort (ConnectOpts (options socksWorld)))]
           @ proxyLog ''Failed to setup global http proxy: '' (Some ''access denied'')\<rparr>"
    and reach: "connectSetup sampleCommon sampleEnv socksWorld =
        (Inr (map_option Collaborator (Some ''access denied'')), w4)"
    and run: "connectToCluster sampleCommon sampleEnv socksWorld =
        connectTunnel sampleCommon sampleEnv None w4"
    and result: "fst (connectToCluster sampleCommon sampleEnv socksWorld) =
          (case GetOrCreateShadow sampleEnv (workloadName sampleEnv (options w4)) (options w4)
                  (labels sampleCommon (String2Map sampleEnv (Labels (options w4)))
                     (workloadName sampleEnv (options w4)))
                  Map.empty (envs sampleCommon (options w4)) of
             Inl msg \<Rightarrow> Some (Collaborator msg)
           | Inr (endPointIP, podName, sshcm, credential) \<Rightarrow>
               (case ClusterCrids sampleEnv (Namespace (options w4)) (ConnectOpts (options w4)) of
                  Inl msg \<Rightarrow> Some (Collaborator msg)
                | Inr cidrs \<Rightarrow>
                    map_option Collaborator
                      (Outbound sampleEnv podName endPointIP credential cidrs)))"
    using socks_proxy_failures_not_fatal [OF socks free kube first second] by blast
  have copts: "ConnectOpts (options w4) = ConnectOpts socksOptions"
    "Namespace (options w4) = ''ns1''"
    by (simp_all add: w4 opts socksOptions_def sampleOptions_def)
  have name: "workloadName sampleEnv (options w4) = ''kt-connect-daemon-abcde''"
    using copts(1) by (rule sample_socks_name)
  have events: "trace w4 =
       [EvWritePidFile ''/tmp/kt.pid'', EvKubernetes, EvServiceHosts ''ns1'',
        EvServiceHosts ''ns2'', EvDumpHosts, EvSetGlobalProxy 2223,
        EvLogError ''Failed to setup global connect proxy: access denied'',
        EvSetHttpProxyEnvironmentVariable 2223,
        EvLogError ''Failed to setup global http proxy: access denied'']"
    by (simp add: w4 hostsDumped_def Let_def setupDump2Host_trace proxyLog_def opts
        socksOptions_def sampleOptions_def)
  have calls: "GetOrCreateShadow sampleEnv n os ls as es =
      Inr (''172.16.0.9'', n @ ''-pod'', n @ ''-cm'', ())"
    "ClusterCrids sampleEnv ns co = Inr [''172.16.0.0/16'']"
    "Outbound sampleEnv pod ip cred cidrs = None" for n os ls as es ns co pod ip cred cidrs
    by (simp_all add: sampleEnv_def)
  have none: "fst (connectToCluster sampleCommon sampleEnv socksWorld) = None"
    unfolding result by (simp add: calls)
  have full: "trace (snd (connectToCluster sampleCommon sampleEnv socksWorld)) =
      trace w4 @ [EvGetOrCreateShadow ''kt-connect-daemon-abcde'', EvClusterCrids ''ns1'',
        EvOutbound ''kt-connect-daemon-abcde-pod'' ''172.16.0.9'']"
    unfolding run
    by (simp add: connectTunnel_def getOrCreateShadow_def Let_def calls name copts)
  have "fst (connectSetup sampleCommon sampleEnv socksWorld) =
      Inr (Some (Collaborator ''access denied''))"
    by (simp add: reach)
  moreover have "trace (snd (connectSetup sampleCommon sampleEnv socksWorld)) =
       [EvWritePidFile ''/tmp/kt.pid'', EvKubernetes, EvServiceHosts ''ns1'',
        EvServiceHosts ''ns2'', EvDumpHosts, EvSetGlobalProxy 2223,
        EvLogError ''Failed to setup global connect proxy: access denied'',
        EvSetHttpProxyEnvironmentVariable 2223,
        EvLogError ''Failed to setup global http proxy: access denied'']"
    by (simp add: reach events)
  moreover have "trace (snd (connectToCluster sampleCommon sampleEnv socksWorld)) =
       [EvWritePidFile ''/tmp/kt.pid'', EvKubernetes, EvServiceHosts ''ns1'',
        EvServiceHosts ''ns2'', EvDumpHosts, EvSetGlobalProxy 2223,
        EvLogError ''Failed to setup global connect proxy: access denied'',
        EvSetHttpProxyEnvironmentVariable 2223,
        EvLogError ''Failed to setup global http proxy: access denied'',
        EvGetOrCreateShadow ''kt-connect-daemon-abcde'', EvClusterCrids ''ns1'',
        EvOutbound ''kt-connect-daemon-abcde-pod'' ''172.16.0.9'']"
    by (simp add: full events)
  ultimately show ?thesis
    using socks free kube first second none by blast
qed

subsection \<open>The connect command\<close>

lemma levelSet_fields [simp]:
  "options (levelSet w) = options w"
  "pidFiles (levelSet w) = pidFiles w"
  "alive (levelSet w) = alive w"
  "trace (levelSet w) = trace w @ (if Debug (options w) then [EvSetDebugLevel] else [])"
  by (simp_all add: levelSet_def)

lemma CompleteOptions_fields [simp]:
  "pidFiles (snd (CompleteOptions c env w)) = pidFiles w"
  "alive (snd (CompleteOptions c env w)) = alive w"
  "trace (snd (CompleteOptions c env w)) =
     trace w @ (if Method (ConnectOpts (options w)) = ConnectMethodTun c
                then [EvAllocateTunIP (TunCidr (ConnectOpts (options w)))] else [])"
  by (simp_all add: CompleteOptions_def Let_def split: sum.splits prod.splits)

lemma CompleteOptions_failure:
  assumes "Method (ConnectOpts (options w)) = ConnectMethodTun c"
    and "allocateTunIP env (TunCidr (ConnectOpts (options w))) = Inl e"
  shows "CompleteOptions c env w = (Some e, emit (EvAllocateTunIP (TunCidr (ConnectOpts (options w)))) w)"
  using assms by (simp add: CompleteOptions_def Let_def)

lemma CompleteOptions_success:
  assumes "Method (ConnectOpts (options w)) = ConnectMethodTun c"
    and "allocateTunIP env (TunCidr (ConnectOpts (options w))) = Inr (srcIP, destIP)"
  shows "fst (CompleteOptions c env w) = None"
    and "options (snd (CompleteOptions c env w)) =
      (options w)\<lparr>ConnectOpts := (ConnectOpts (options w))\<lparr>SourceIP := srcIP, DestIP := destIP\<rparr>\<rparr>"
  using assms by (simp_all add: CompleteOptions_def Let_def)

lemma connectAction_alloc_failure:
  "fst (CompleteOptions c env (levelSet w)) = Some e \<Longrightarrow>
     connectAction c env w = (Some e, optionsCompleted c env w)"
  by (cases "CompleteOptions c env (levelSet w)")
     (simp add: connectAction_def Let_def levelSet_def optionsCompleted_def)

lemma connectAction_kube_failure:
  "fst (CompleteOptions c env (levelSet w)) = None \<Longrightarrow>
   combineKubeOpts env (options (optionsCompleted c env w)) = Inl msg \<Longrightarrow>
     connectAction c env w =
       (Some (Collaborator msg), emit EvCombineKubeOpts (optionsCompleted c env w))"
  by (cases "CompleteOptions c env (levelSet w)")
     (simp add: connectAction_def Let_def levelSet_def optionsCompleted_def)

lemma connectAction_Connect:
  "fst (CompleteOptions c env (levelSet w)) = None \<Longrightarrow>
   combineKubeOpts env (options (optionsCompleted c env w)) = Inr opts \<Longrightarrow>
     connectAction c env w =
       Connect c env ((emit EvCombineKubeOpts (optionsCompleted c env w))\<lparr>options := opts\<rparr>)"
  by (cases "CompleteOptions c env (levelSet w)")
     (simp add: connectAction_def Let_def levelSet_def optionsCompleted_def)

lemma Connect_trace:
  "\<exists>evs. trace (snd (Connect c env w)) = trace w @ evs \<and> inOrder 3 15 evs"
proof (cases "IsDaemonRunning (PidFile (RuntimeOpts (options w))) w")
  case True
  have "inOrder 3 15 [EvIsDaemonRunning (PidFile (RuntimeOpts (options w)))]"
    by (simp add: inOrder_def)
  then show ?thesis
    using True by (simp add: Connect_held)
next
  case False
  let ?pf = "PidFile (RuntimeOpts (options w))"
  let ?w1 = "emit EvSetUpCloseHandler (emit (EvIsDaemonRunning ?pf) w)"
  obtain r w2 where run: "connectToCluster c env ?w1 = (r, w2)"
    by (cases "connectToCluster c env ?w1") auto
  obtain evs where evs: "trace w2 = trace ?w1 @ evs" and order: "inOrder 5 13 evs"
    using connectToCluster_trace [of c env ?w1] run by auto
  have head: "inOrder 3 5 [EvIsDaemonRunning ?pf, EvSetUpCloseHandler]"
    by (simp add: inOrder_def)
  have body: "inOrder 3 13 ([EvIsDaemonRunning ?pf, EvSetUpCloseHandler] @ evs)"
    using inOrder_append [OF head order] by simp
  show ?thesis
  proof (cases r)
    case None
    have tail: "inOrder 13 15 [EvWatchInterrupt, EvWaitSignal]"
      by (simp add: inOrder_def)
    have "inOrder 3 15 (([EvIsDaemonRunning ?pf, EvSetUpCloseHandler] @ evs)
        @ [EvWatchInterrupt, EvWaitSignal])"
      using inOrder_append [OF body tail] by simp
    moreover have "trace (snd (Connect c env w)) =
        trace w @ (([EvIsDaemonRunning ?pf, EvSetUpCloseHandler] @ evs)
          @ [EvWatchInterrupt, EvWaitSignal])"
      using None run by (simp add: Connect_free [OF False] evs)
    ultimately show ?thesis
      by blast
  next
    case (Some e)
    have "inOrder 3 15 ([EvIsDaemonRunning ?pf, EvSetUpCloseHandler] @ evs)"
      using inOrder_widen [OF body, of 3 15] by simp
    moreover have "trace (snd (Connect c env w)) =
        trace w @ ([EvIsDaemonRunning ?pf, EvSetUpCloseHandler] @ evs)"
      using Some run by (simp add: Connect_free [OF False] evs)
    ultimately show ?thesis
      by blast
  qed
qed

lemma optionsCompleted_trace:
  "\<exists>evs. trace (optionsCompleted c env w) = trace w @ evs \<and> inOrder 0 1 evs"
proof -
  have "trace (optionsCompleted c env w) =
      trace w @ ((if Debug (options w) then [EvSetDebugLevel] else [])
        @ (if Method (ConnectOpts (options w)) = ConnectMethodTun c
           then [EvAllocateTunIP (TunCidr (ConnectOpts (options w)))] else []))"
    by (simp add: optionsCompleted_def)
  moreover have "inOrder 0 1 ((if Debug (options w) then [EvSetDebugLevel] else [])
        @ (if Method (ConnectOpts (options w)) = ConnectMethodTun c
           then [EvAllocateTunIP (TunCidr (ConnectOpts (options w)))] else []))"
    by (simp add: inOrder_def)
  ultimately show ?thesis
    by blast
qed

lemma connectAction_trace:
  "\<exists>evs. trace (snd (connectAction c env w)) = trace w @ evs \<and> inOrder 0 15 evs"
proof -
  obtain evs0 where evs0: "trace (optionsCompleted c env w) = trace w @ evs0"
    and order0: "inOrder 0 1 evs0"
    using optionsCompleted_trace by blast
  show ?thesis
  proof (cases "fst (CompleteOptions c env (levelSet w))")
    case (Some e)
    then have "trace (snd (connectAction c env w)) = trace w @ evs0"
      by (simp add: connectAction_alloc_failure evs0)
    then show ?thesis
      using inOrder_widen [OF order0, of 0 15] by auto
  next
    case None
    have kube: "inOrder 1 3 [EvCombineKubeOpts]"
      by (simp add: inOrder_def)
    have pre: "inOrder 0 3 (evs0 @ [EvCombineKubeOpts])"
      using inOrder_append [OF order0 kube] by simp
    show ?thesis
    proof (cases "combineKubeOpts env (options (optionsCompleted c env w))")
      case (Inl msg)
      then have "trace (snd (connectAction c env w)) = trace w @ (evs0 @ [EvCombineKubeOpts])"
        using None by (simp add: connectAction_kube_failure evs0)
      then show ?thesis
        using inOrder_widen [OF pre, of 0 15] by auto
    next
      case (Inr opts)
      let ?w2 = "(emit EvCombineKubeOpts (optionsCompleted c env w))\<lparr>options := opts\<rparr>"
      obtain evs where evs: "trace (snd (Connect c env ?w2)) = trace ?w2 @ evs"
        and order: "inOrder 3 15 evs"
        using Connect_trace by blast
      have "trace (snd (connectAction c env w)) = trace w @ ((evs0 @ [EvCombineKubeOpts]) @ evs)"
        using None Inr by (simp add: connectAction_Connect evs evs0)
      moreover have "inOrder 0 15 ((evs0 @ [EvCombineKubeOpts]) @ evs)"
        using inOrder_append [OF pre order] by simp
      ultimately show ?thesis
        by blast
    qed
  qed
qed

lemma connectSetup_steps:
  "\<exists>evs. trace (snd (connectSetup c env w)) =
       trace w @ EvWritePidFile (PidFile (RuntimeOpts (options w))) # evs
     \<and> inOrder 6 10 evs"
proof (cases "IsDaemonRunning (PidFile (RuntimeOpts (options w))) w")
  case True
  then have "trace (snd (connectSetup c env w)) =
      trace w @ EvWritePidFile (PidFile (RuntimeOpts (options w))) # []"
    by (simp add: connectSetup_held)
  then show ?thesis
    using inOrder_Nil by blast
next
  case False
  show ?thesis
  proof (cases "Kubernetes env")
    case (Some msg)
    then have "trace (snd (connectSetup c env w)) =
        trace w @ EvWritePidFile (PidFile (RuntimeOpts (options w))) # [EvKubernetes]"
      using False by (simp add: connectSetup_kube)
    moreover have "inOrder 6 10 [EvKubernetes]"
      by (simp add: inOrder_def)
    ultimately show ?thesis
      by blast
  next
    case None
    obtain dump where dump: "trace (hostsDumped env w) =
        trace w @ [EvWritePidFile (PidFile (RuntimeOpts (options w))), EvKubernetes] @ dump"
      and dumpOrder: "inOrder 7 8 dump"
      using hostsDumped_trace by blast
    have pre: "inOrder 6 8 (EvKubernetes # dump)"
      using inOrder_Cons [OF _ _ dumpOrder, of 6] by simp
    show ?thesis
    proof (cases "Method (ConnectOpts (options w)) = ConnectMethodSocks c")
      case True
      obtain socks where socks: "trace (snd (setupSocksProxy env (hostsDumped env w))) =
          trace (hostsDumped env w) @ socks" and socksOrder: "inOrder 9 10 socks"
        using setupSocksProxy_inOrder by blast
      have "trace (snd (connectSetup c env w)) =
          trace w @ EvWritePidFile (PidFile (RuntimeOpts (options w))) # ((EvKubernetes # dump) @ socks)"
        using False None True by (simp add: connectSetup_reached socks dump)
      moreover have "inOrder 6 10 ((EvKubernetes # dump) @ socks)"
        using inOrder_append [OF pre inOrder_widen [OF socksOrder, of 8 10]] by simp
      ultimately show ?thesis
        by blast
    next
      case notSocks: False
      have "trace (snd (connectSetup c env w)) =
          trace w @ EvWritePidFile (PidFile (RuntimeOpts (options w))) # (EvKubernetes # dump)"
        using False None notSocks by (simp add: connectSetup_reached dump)
      moreover have "inOrder 6 10 (EvKubernetes # dump)"
        using inOrder_widen [OF pre, of 6 10] by simp
      ultimately show ?thesis
        by blast
    qed
  qed
qed

lemma connectToCluster_steps:
  "\<exists>evs. trace (snd (connectToCluster c env w)) =
       trace w @ EvWritePidFile (PidFile (RuntimeOpts (options w))) # evs
     \<and> inOrder 6 13 evs"
proof -
  obtain evs1 where evs1: "trace (snd (connectSetup c env w)) =
      trace w @ EvWritePidFile (PidFile (RuntimeOpts (options w))) # evs1"
    and order1: "inOrder 6 10 evs1"
    using connectSetup_steps by blast
  show ?thesis
  proof (cases "fst (connectSetup c env w)")
    case (Inl e)
    then have "trace (snd (connectToCluster c env w)) =
        trace w @ EvWritePidFile (PidFile (RuntimeOpts (options w))) # evs1"
      by (simp add: connectToCluster_Inl evs1)
    then show ?thesis
      using inOrder_widen [OF order1, of 6 13] by auto
  next
    case (Inr err)
    obtain evs2 where evs2: "trace (snd (connectTunnel c env err (snd (connectSetup c env w)))) =
        trace (snd (connectSetup c env w))
          @ EvGetOrCreateShadow (workloadName env (options (snd (connectSetup c env w)))) # evs2"
      and order2: "inOrder 12 13 evs2"
      using connectTunnel_trace by blast
    have "inOrder 10 13
        (EvGetOrCreateShadow (workloadName env (options (snd (connectSetup c env w)))) # evs2)"
      using inOrder_Cons [OF _ _ order2, of 10] by simp
    then have "inOrder 6 13 (evs1
        @ EvGetOrCreateShadow (workloadName env (options (snd (connectSetup c env w)))) # evs2)"
      using inOrder_append [OF order1] by simp
    moreover have "trace (snd (connectToCluster c env w)) =
        trace w @ EvWritePidFile (PidFile (RuntimeOpts (options w))) # (evs1
        @ EvGetOrCreateShadow (workloadName env (options (snd (connectSetup c env w)))) # evs2)"
      using Inr by (simp add: connectToCluster_Inr evs1 evs2)
    ultimately show ?thesis
      by blast
  qed
qed

lemma Connect_steps:
  assumes "\<not> IsDaemonRunning (PidFile (RuntimeOpts (options w))) w"
  shows "\<exists>evs. trace (snd (Connect c env w)) =
       trace w @ EvIsDaemonRunning (PidFile (RuntimeOpts (options w))) # EvSetUpCloseHandler
         # EvWritePidFile (PidFile (RuntimeOpts (options w))) # evs
     \<and> inOrder 6 15 evs"
proof -
  let ?pf = "PidFile (RuntimeOpts (options w))"
  let ?w1 = "emit EvSetUpCloseHandler (emit (EvIsDaemonRunning ?pf) w)"
  obtain r w2 where run: "connectToCluster c env ?w1 = (r, w2)"
    by (cases "connectToCluster c env ?w1") auto
  obtain evs where evs: "trace w2 =
      trace w @ EvIsDaemonRunning ?pf # EvSetUpCloseHandler # EvWritePidFile ?pf # evs"
    and order: "inOrder 6 13 evs"
    using connectToCluster_steps [of c env ?w1] run by auto
  show ?thesis
  proof (cases r)
    case None
    have tail: "inOrder 13 15 [EvWatchInterrupt, EvWaitSignal]"
      by (simp add: inOrder_def)
    have "inOrder 6 15 (evs @ [EvWatchInterrupt, EvWaitSignal])"
      using inOrder_append [OF order tail] by simp
    moreover have "trace (snd (Connect c env w)) =
        trace w @ EvIsDaemonRunning ?pf # EvSetUpCloseHandler # EvWritePidFile ?pf
          # (evs @ [EvWatchInterrupt, EvWaitSignal])"
      using None run by (simp add: Connect_free [OF assms] evs)
    ultimately show ?thesis
      by blast
  next
    case (Some e)
    have "inOrder 6 15 evs"
      using inOrder_widen [OF order, of 6 15] by simp
    moreover have "trace (snd (Connect c env w)) =
        trace w @ EvIsDaemonRunning ?pf # EvSetUpCloseHandler # EvWritePidFile ?pf # evs"
      using Some run by (simp add: Connect_free [OF assms] evs)
    ultimately show ?thesis
      by blast
  qed
qed

subsection \<open>The order of the steps (C2)\<close>

lemma connectAction_held:
  assumes "Method (ConnectOpts (options w)) = ConnectMethodTun c"
    and "allocateTunIP env (TunCidr (ConnectOpts (options w))) = Inr (srcIP, destIP)"
    and "combineKubeOpts env
           ((options w)\<lparr>ConnectOpts :=
              (ConnectOpts (options w))\<lparr>SourceIP := srcIP, DestIP := destIP\<rparr>\<rparr>) = Inr opts"
    and "IsDaemonRunning (PidFile (RuntimeOpts opts)) w"
  shows "connectAction c env w =
     (Some (AlreadyRunning (PidFile (RuntimeOpts opts))),
      (levelSet w)\<lparr>options := opts,
        trace := trace (levelSet w) @ [EvAllocateTunIP (TunCidr (ConnectOpts (options w))),
          EvCombineKubeOpts, EvIsDaemonRunning (PidFile (RuntimeOpts opts))]\<rparr>)"
proof -
  have tun: "Method (ConnectOpts (options (levelSet w))) = ConnectMethodTun c"
    and alloc: "allocateTunIP env (TunCidr (ConnectOpts (options (levelSet w)))) = Inr (srcIP, destIP)"
    using assms(1,2) by simp_all
  have succeeded: "fst (CompleteOptions c env (levelSet w)) = None"
    using CompleteOptions_success(1) [OF tun alloc] .
  have completed: "options (optionsCompleted c env w) =
      (options w)\<lparr>ConnectOpts := (ConnectOpts (options w))\<lparr>SourceIP := srcIP, DestIP := destIP\<rparr>\<rparr>"
    using CompleteOptions_success(2) [OF tun alloc] by (simp add: optionsCompleted_def)
  have combined: "combineKubeOpts env (options (optionsCompleted c env w)) = Inr opts"
    using assms(3) by (simp only: completed)
  let ?w2 = "(emit EvCombineKubeOpts (optionsCompleted c env w))\<lparr>options := opts\<rparr>"
  have held: "IsDaemonRunning (PidFile (RuntimeOpts (options ?w2))) ?w2"
    using assms(4)
    by (simp add: IsDaemonRunning_def optionsCompleted_def split: option.splits)
  have world: "optionsCompleted c env w =
      (levelSet w)\<lparr>options := (options w)\<lparr>ConnectOpts :=
          (ConnectOpts (options w))\<lparr>SourceIP := srcIP, DestIP := destIP\<rparr>\<rparr>,
        trace := trace (levelSet w) @ [EvAllocateTunIP (TunCidr (ConnectOpts (options w)))]\<rparr>"
    using tun alloc by (simp add: optionsCompleted_def CompleteOptions_def Let_def emit_def)
  show ?thesis
    unfolding connectAction_Connect [OF succeeded combined] Connect_held [OF held]
    by (simp add: world emit_def)
qed

text \<open>
  C2, as the code has it. The steps of the connect command happen in one fixed order: the
  log level, the TUN addresses, the cluster options, the check of the lock, the close
  handler, the pid file, the handle of the cluster, the host table, the proxies, the
  shadow, the CIDRs of the cluster, the transport, the wait. The TUN addresses are
  allocated by \<^verbatim>\<open>CompleteOptions\<close>, which the command calls before \<^verbatim>\<open>Connect\<close>: when the
  allocation fails the run ends with that error before the lock is looked at; when it
  succeeds and the lock of the completed options is held, the run fails with
  \<open>AlreadyRunning\<close> after the allocation, with the allocated addresses in its options, and
  has done nothing else but combine the cluster options and check the lock. Within
  \<^verbatim>\<open>Connect\<close> the lock comes first: a held lock ends it with nothing but the check done,
  and otherwise the check, the close handler and the pid file come before every other
  step.
\<close>

theorem setup_order:
  "(\<exists>evs. trace (snd (connectAction c env w)) = trace w @ evs \<and> inOrder 0 15 evs)
   \<and> (\<forall>e. Method (ConnectOpts (options w)) = ConnectMethodTun c
           \<and> allocateTunIP env (TunCidr (ConnectOpts (options w))) = Inl e \<longrightarrow>
         connectAction c env w =
           (Some e, emit (EvAllocateTunIP (TunCidr (ConnectOpts (options w)))) (levelSet w)))
   \<and> (\<forall>srcIP destIP opts.
         Method (ConnectOpts (options w)) = ConnectMethodTun c
           \<and> allocateTunIP env (TunCidr (ConnectOpts (options w))) = Inr (srcIP, destIP)
           \<and> combineKubeOpts env
               ((options w)\<lparr>ConnectOpts :=
                  (ConnectOpts (options w))\<lparr>SourceIP := srcIP, DestIP := destIP\<rparr>\<rparr>) = Inr opts
           \<and> IsDaemonRunning (PidFile (RuntimeOpts opts)) w \<longrightarrow>
         connectAction c env w =
           (Some (AlreadyRunning (PidFile (RuntimeOpts opts))),
            (levelSet w)\<lparr>options := opts,
              trace := trace (levelSet w) @ [EvAllocateTunIP (TunCidr (ConnectOpts (options w))),
                EvCombineKubeOpts, EvIsDaemonRunning (PidFile (RuntimeOpts opts))]\<rparr>))
   \<and> (IsDaemonRunning (PidFile (RuntimeOpts (options w))) w \<longrightarrow>
         Connect c env w =
           (Some (AlreadyRunning (PidFile (RuntimeOpts (options w)))),
            emit (EvIsDaemonRunning (PidFile (RuntimeOpts (options w)))) w))
   \<and> (\<not> IsDaemonRunning (PidFile (RuntimeOpts (options w))) w \<longrightarrow>
         (\<exists>evs. newEvents w (snd (Connect c env w)) =
              EvIsDaemonRunning (PidFile (RuntimeOpts (options w))) # EvSetUpCloseHandler
                # EvWritePidFile (PidFile (RuntimeOpts (options w))) # evs
            \<and> inOrder 6 15 evs))"
proof (intro conjI allI impI)
  show "\<exists>evs. trace (snd (connectAction c env w)) = trace w @ evs \<and> inOrder 0 15 evs"
    by (rule connectAction_trace)
next
  fix e
  assume a: "Method (ConnectOpts (options w)) = ConnectMethodTun c
           \<and> allocateTunIP env (TunCidr (ConnectOpts (options w))) = Inl e"
  then have "CompleteOptions c env (levelSet w) =
      (Some e, emit (EvAllocateTunIP (TunCidr (ConnectOpts (options w)))) (levelSet w))"
    using CompleteOptions_failure [of "levelSet w" c env e] by simp
  then show "connectAction c env w =
      (Some e, emit (EvAllocateTunIP (TunCidr (ConnectOpts (options w)))) (levelSet w))"
    using connectAction_alloc_failure [of c env w e] by (simp add: optionsCompleted_def)
next
  fix srcIP destIP opts
  assume "Method (ConnectOpts (options w)) = ConnectMethodTun c
           \<and> allocateTunIP env (TunCidr (ConnectOpts (options w))) = Inr (srcIP, destIP)
           \<and> combineKubeOpts env
               ((options w)\<lparr>ConnectOpts :=
                  (ConnectOpts (options w))\<lparr>SourceIP := srcIP, DestIP := destIP\<rparr>\<rparr>) = Inr opts
           \<and> IsDaemonRunning (PidFile (RuntimeOpts opts)) w"
  then show "connectAction c env w =
           (Some (AlreadyRunning (PidFile (RuntimeOpts opts))),
            (levelSet w)\<lparr>options := opts,
              trace := trace (levelSet w) @ [EvAllocateTunIP (TunCidr (ConnectOpts (options w))),
                EvCombineKubeOpts, EvIsDaemonRunning (PidFile (RuntimeOpts opts))]\<rparr>)"
    using connectAction_held by blast
next
  assume "IsDaemonRunning (PidFile (RuntimeOpts (options w))) w"
  then show "Connect c env w =
           (Some (AlreadyRunning (PidFile (RuntimeOpts (options w)))),
            emit (EvIsDaemonRunning (PidFile (RuntimeOpts (options w)))) w)"
    by (rule Connect_held)
next
  assume "\<not> IsDaemonRunning (PidFile (RuntimeOpts (options w))) w"
  then obtain evs where "trace (snd (Connect c env w)) =
       trace w @ EvIsDaemonRunning (PidFile (RuntimeOpts (options w))) # EvSetUpCloseHandler
         # EvWritePidFile (PidFile (RuntimeOpts (options w))) # evs"
    and "inOrder 6 15 evs"
    using Connect_steps by blast
  then show "\<exists>evs. newEvents w (snd (Connect c env w)) =
              EvIsDaemonRunning (PidFile (RuntimeOpts (options w))) # EvSetUpCloseHandler
                # EvWritePidFile (PidFile (RuntimeOpts (options w))) # evs
            \<and> inOrder 6 15 evs"
    using newEvents_append by blast
qed

lemma sample_held_options:
  "Method (ConnectOpts (options heldWorld)) = ConnectMethodTun sampleCommon"
  "TunCidr (ConnectOpts (options heldWorld)) = ''10.1.1.0/30''"
  "SourceIP (ConnectOpts (options heldWorld)) = []"
  "DestIP (ConnectOpts (options heldWorld)) = []"
  "Debug (options heldWorld) = False"
  by (simp_all add: heldWorld_def sampleWorld_def freshOptions_def sampleOptions_def
      sampleCommon_def)

lemma sample_held_action:
  "connectAction sampleCommon sampleEnv heldWorld =
     (Some (AlreadyRunning ''/tmp/kt.pid''),
      heldWorld\<lparr>options := (options heldWorld)\<lparr>ConnectOpts :=
          (ConnectOpts (options heldWorld))\<lparr>SourceIP := ''10.1.1.1'', DestIP := ''10.1.1.2''\<rparr>\<rparr>,
        trace := [EvAllocateTunIP ''10.1.1.0/30'', EvCombineKubeOpts,
          EvIsDaemonRunning ''/tmp/kt.pid'']\<rparr>)"
proof -
  let ?opts = "(options heldWorld)\<lparr>ConnectOpts :=
      (ConnectOpts (options heldWorld))\<lparr>SourceIP := ''10.1.1.1'', DestIP := ''10.1.1.2''\<rparr>\<rparr>"
  have alloc: "allocateTunIP sampleEnv (TunCidr (ConnectOpts (options heldWorld))) =
      Inr (''10.1.1.1'', ''10.1.1.2'')"
    by (simp only: sample_held_options(2) sample_alloc)
  have combined: "combineKubeOpts sampleEnv ?opts = Inr ?opts"
    by (simp add: sampleEnv_def)
  have pf: "PidFile (RuntimeOpts ?opts) = ''/tmp/kt.pid''"
    by (simp add: sample_held(1))
  have held: "IsDaemonRunning (PidFile (RuntimeOpts ?opts)) heldWorld"
    unfolding pf by (simp add: IsDaemonRunning_def sample_held)
  show ?thesis
    using connectAction_held [OF sample_held_options(1) alloc combined held]
    unfolding pf
    by (simp add: levelSet_def sample_held_options sample_held(4))
qed

text \<open>
  C2 as the claim states it fails: in TUN mode, with the lock held by a live process,
  the connect command fails with \<open>AlreadyRunning\<close> after it has allocated the two TUN
  addresses and stored them in the options.
\<close>

theorem allocation_before_lock_counterexample:
  "Method (ConnectOpts (options heldWorld)) = ConnectMethodTun sampleCommon
   \<and> pidFiles heldWorld ''/tmp/kt.pid'' = Some 7 \<and> alive heldWorld = {7}
   \<and> SourceIP (ConnectOpts (options heldWorld)) = []
   \<and> DestIP (ConnectOpts (options heldWorld)) = []
   \<and> fst (connectAction sampleCommon sampleEnv heldWorld) = Some (AlreadyRunning ''/tmp/kt.pid'')
   \<and> trace (snd (connectAction sampleCommon sampleEnv heldWorld)) =
       [EvAllocateTunIP ''10.1.1.0/30'', EvCombineKubeOpts, EvIsDaemonRunning ''/tmp/kt.pid'']
   \<and> SourceIP (ConnectOpts (options (snd (connectAction sampleCommon sampleEnv heldWorld)))) =
       ''10.1.1.1''
   \<and> DestIP (ConnectOpts (options (snd (connectAction sampleCommon sampleEnv heldWorld)))) =
       ''10.1.1.2''"
  by (simp add: sample_held_action sample_held_options sample_held)

lemma sample_exhausted:
  "allocateTunIP sampleEnv ''10.1.1.7/32'' = Inl RangeExhausted"
  using allocateTunIP_exhausted [OF sample_parse(2)] by (simp add: usable_def netSize_def)

lemma sample_action:
  "trace (snd (connectAction sampleCommon sampleEnv sampleWorld)) =
     [EvAllocateTunIP ''10.1.1.0/30'', EvCombineKubeOpts, EvIsDaemonRunning ''/tmp/kt.pid'',
      EvSetUpCloseHandler, EvWritePidFile ''/tmp/kt.pid'', EvKubernetes,
      EvServiceHosts ''ns1'', EvServiceHosts ''ns2'', EvDumpHosts,
      EvGetOrCreateShadow ''kt-connect-daemon-connect-shared'', EvClusterCrids ''ns1'',
      EvOutbound ''kt-connect-daemon-connect-shared-pod'' ''172.16.0.9'',
      EvWatchInterrupt, EvWaitSignal]"
proof -
  have alloc: "allocateTunIP sampleEnv (TunCidr (ConnectOpts (options sampleWorld))) =
      Inr (''10.1.1.1'', ''10.1.1.2'')"
    using sample_alloc by (simp add: sampleWorld_def sampleOptions_def)
  have completed: "CompleteOptions sampleCommon sampleEnv sampleWorld =
      (None, emit (EvAllocateTunIP ''10.1.1.0/30'') sampleWorld)"
    using alloc
    by (simp add: CompleteOptions_def Let_def emit_def sampleWorld_def sampleOptions_def
        sampleCommon_def)
  have combined: "combineKubeOpts sampleEnv opts = Inr opts" for opts :: "unit DaemonOptions"
    by (simp add: sampleEnv_def)
  have quiet: "levelSet sampleWorld = sampleWorld"
    by (simp add: levelSet_def sampleWorld_def sampleOptions_def)
  have action: "connectAction sampleCommon sampleEnv sampleWorld =
      Connect sampleCommon sampleEnv
        (emit EvCombineKubeOpts (emit (EvAllocateTunIP ''10.1.1.0/30'') sampleWorld))"
    using connectAction_Connect [of sampleCommon sampleEnv sampleWorld, OF _ combined]
    by (simp add: optionsCompleted_def quiet completed emit_def)
  show ?thesis
    unfolding action
    by (simp add: Connect_def connectToCluster_def connectSetup_def connectTunnel_def
        getOrCreateShadow_def workloadName_def setupDump2Host_def WritePidFile_def
        IsDaemonRunning_def sampleWorld_def sampleOptions_def sampleEnv_def sampleCommon_def
        Let_def)
qed

theorem setup_order_witness:
  "Method (ConnectOpts (options heldWorld)) = ConnectMethodTun sampleCommon
   \<and> allocateTunIP sampleEnv (TunCidr (ConnectOpts (options heldWorld))) =
        Inr (''10.1.1.1'', ''10.1.1.2'')
   \<and> IsDaemonRunning ''/tmp/kt.pid'' heldWorld
   \<and> fst (connectAction sampleCommon sampleEnv heldWorld) = Some (AlreadyRunning ''/tmp/kt.pid'')
   \<and> trace (snd (connectAction sampleCommon sampleEnv heldWorld)) =
       [EvAllocateTunIP ''10.1.1.0/30'', EvCombineKubeOpts, EvIsDaemonRunning ''/tmp/kt.pid'']
   \<and> Connect sampleCommon sampleEnv heldWorld =
       (Some (AlreadyRunning ''/tmp/kt.pid''), emit (EvIsDaemonRunning ''/tmp/kt.pid'') heldWorld)
   \<and> Method (ConnectOpts (options exhaustedWorld)) = ConnectMethodTun sampleCommon
   \<and> allocateTunIP sampleEnv (TunCidr (ConnectOpts (options exhaustedWorld))) = Inl RangeExhausted
   \<and> connectAction sampleCommon sampleEnv exhaustedWorld =
       (Some RangeExhausted, emit (EvAllocateTunIP ''10.1.1.7/32'') exhaustedWorld)
   \<and> \<not> IsDaemonRunning (PidFile (RuntimeOpts (options sampleWorld))) sampleWorld
   \<and> take 3 (newEvents sampleWorld (snd (Connect sampleCommon sampleEnv sampleWorld))) =
       [EvIsDaemonRunning ''/tmp/kt.pid'', EvSetUpCloseHandler, EvWritePidFile ''/tmp/kt.pid'']
   \<and> inOrder 0 15
       [EvAllocateTunIP ''10.1.1.0/30'', EvCombineKubeOpts, EvIsDaemonRunning ''/tmp/kt.pid'',
        EvSetUpCloseHandler, EvWritePidFile ''/tmp/kt.pid'', EvKubernetes,
        EvServiceHosts ''ns1'', EvServiceHosts ''ns2'', EvDumpHosts,
        EvGetOrCreateShadow ''kt-connect-daemon-connect-shared'', EvClusterCrids ''ns1'',
        EvOutbound ''kt-connect-daemon-connect-shared-pod'' ''172.16.0.9'',
        EvWatchInterrupt, EvWaitSignal]"
proof -
  let ?opts = "(options heldWorld)\<lparr>ConnectOpts :=
      (ConnectOpts (options heldWorld))\<lparr>SourceIP := ''10.1.1.1'', DestIP := ''10.1.1.2''\<rparr>\<rparr>"
  note heldRun = setup_order [of sampleCommon sampleEnv heldWorld]
  note exhaustedRun = setup_order [of sampleCommon sampleEnv exhaustedWorld]
  note freeRun = setup_order [of sampleCommon sampleEnv sampleWorld]
  have tun: "Method (ConnectOpts (options heldWorld)) = ConnectMethodTun sampleCommon"
    by (rule sample_held_options(1))
  have alloc: "allocateTunIP sampleEnv (TunCidr (ConnectOpts (options heldWorld))) =
      Inr (''10.1.1.1'', ''10.1.1.2'')"
    by (simp only: sample_held_options(2) sample_alloc)
  have combined: "combineKubeOpts sampleEnv ?opts = Inr ?opts"
    by (simp add: sampleEnv_def)
  have pf: "PidFile (RuntimeOpts ?opts) = ''/tmp/kt.pid''"
    "PidFile (RuntimeOpts (options heldWorld)) = ''/tmp/kt.pid''"
    by (simp_all add: sample_held(1))
  have held: "IsDaemonRunning ''/tmp/kt.pid'' heldWorld"
    by (simp add: IsDaemonRunning_def sample_held)
  have action: "connectAction sampleCommon sampleEnv heldWorld =
      (Some (AlreadyRunning (PidFile (RuntimeOpts ?opts))),
       (levelSet heldWorld)\<lparr>options := ?opts,
          trace := trace (levelSet heldWorld)
            @ [EvAllocateTunIP (TunCidr (ConnectOpts (options heldWorld))),
               EvCombineKubeOpts, EvIsDaemonRunning (PidFile (RuntimeOpts ?opts))]\<rparr>)"
    using heldRun [THEN conjunct2, THEN conjunct2, THEN conjunct1, rule_format,
        of "''10.1.1.1''" "''10.1.1.2''" ?opts] tun alloc combined held
    by (simp only: pf simp_thms)
  have r1: "fst (connectAction sampleCommon sampleEnv heldWorld) =
      Some (AlreadyRunning ''/tmp/kt.pid'')"
    unfolding action by (simp add: pf)
  have r2: "trace (snd (connectAction sampleCommon sampleEnv heldWorld)) =
      [EvAllocateTunIP ''10.1.1.0/30'', EvCombineKubeOpts, EvIsDaemonRunning ''/tmp/kt.pid'']"
    unfolding action by (simp add: pf levelSet_def sample_held sample_held_options)
  have r3: "Connect sampleCommon sampleEnv heldWorld =
      (Some (AlreadyRunning ''/tmp/kt.pid''), emit (EvIsDaemonRunning ''/tmp/kt.pid'') heldWorld)"
    using heldRun [THEN conjunct2, THEN conjunct2, THEN conjunct2, THEN conjunct1] held
    by (simp only: pf simp_thms)
  have tun': "Method (ConnectOpts (options exhaustedWorld)) = ConnectMethodTun sampleCommon"
    and cidr': "TunCidr (ConnectOpts (options exhaustedWorld)) = ''10.1.1.7/32''"
    and quiet: "levelSet exhaustedWorld = exhaustedWorld"
    by (simp_all add: exhaustedWorld_def sampleWorld_def sampleOptions_def sampleCommon_def
        levelSet_def)
  have alloc': "allocateTunIP sampleEnv (TunCidr (ConnectOpts (options exhaustedWorld))) =
      Inl RangeExhausted"
    by (simp only: cidr' sample_exhausted)
  have r4: "connectAction sampleCommon sampleEnv exhaustedWorld =
      (Some RangeExhausted, emit (EvAllocateTunIP ''10.1.1.7/32'') exhaustedWorld)"
    using exhaustedRun [THEN conjunct2, THEN conjunct1, rule_format, of RangeExhausted]
      tun' alloc'
    by (simp only: cidr' quiet simp_thms)
  have free: "\<not> IsDaemonRunning (PidFile (RuntimeOpts (options sampleWorld))) sampleWorld"
    by (simp add: IsDaemonRunning_def sampleWorld_def)
  have pf': "PidFile (RuntimeOpts (options sampleWorld)) = ''/tmp/kt.pid''"
    by (simp add: sampleWorld_def sampleOptions_def)
  obtain evs where "newEvents sampleWorld (snd (Connect sampleCommon sampleEnv sampleWorld)) =
      EvIsDaemonRunning ''/tmp/kt.pid'' # EvSetUpCloseHandler # EvWritePidFile ''/tmp/kt.pid'' # evs"
    using freeRun [THEN conjunct2, THEN conjunct2, THEN conjunct2, THEN conjunct2] free
    unfolding pf' by blast
  then have r5: "take 3 (newEvents sampleWorld (snd (Connect sampleCommon sampleEnv sampleWorld))) =
      [EvIsDaemonRunning ''/tmp/kt.pid'', EvSetUpCloseHandler, EvWritePidFile ''/tmp/kt.pid'']"
    by simp
  obtain all where "trace (snd (connectAction sampleCommon sampleEnv sampleWorld)) =
      trace sampleWorld @ all" and "inOrder 0 15 all"
    using freeRun by blast
  then have r6: "inOrder 0 15
       [EvAllocateTunIP ''10.1.1.0/30'', EvCombineKubeOpts, EvIsDaemonRunning ''/tmp/kt.pid'',
        EvSetUpCloseHandler, EvWritePidFile ''/tmp/kt.pid'', EvKubernetes,
        EvServiceHosts ''ns1'', EvServiceHosts ''ns2'', EvDumpHosts,
        EvGetOrCreateShadow ''kt-connect-daemon-connect-shared'', EvClusterCrids ''ns1'',
        EvOutbound ''kt-connect-daemon-connect-shared-pod'' ''172.16.0.9'',
        EvWatchInterrupt, EvWaitSignal]"
    unfolding sample_action by (simp add: sampleWorld_def)
  show ?thesis
    using tun alloc held r1 r2 r3 tun' alloc' r4 free r5 r6 by blast
qed

subsection \<open>The host table (C1)\<close>

text \<open>
  C1. At the example of the specification (\<^verbatim>\<open>ns1\<close> with \<^verbatim>\<open>svcA\<close> at \<^verbatim>\<open>1.1.1.1\<close>, the extra
  namespace \<^verbatim>\<open>ns2\<close> with \<^verbatim>\<open>svcA\<close> at \<^verbatim>\<open>2.2.2.2\<close> and \<^verbatim>\<open>svcB\<close> without address)
  \<^verbatim>\<open>setupDump2Host\<close> hands to \<^verbatim>\<open>util.DumpHosts\<close> the table with \<^verbatim>\<open>svcA\<close> and
  \<^verbatim>\<open>svcA.ns2\<close> only. But the entries of the primary namespace are not filtered: when
  \<^verbatim>\<open>ns1\<close> holds \<^verbatim>\<open>svcA\<close> with the address \<^verbatim>\<open>None\<close> and \<^verbatim>\<open>svcC\<close> with the empty
  address, both stay in the table, while \<^verbatim>\<open>svcB\<close> of \<^verbatim>\<open>ns2\<close> is dropped.
\<close>

theorem setupDump2Host_primary_unfiltered:
  "Namespace (options sampleWorld) = ''ns1''
   \<and> Dump2HostsNamespaces (ConnectOpts (options sampleWorld)) = [''ns2'']
   \<and> ServiceHosts sampleEnv ''ns1'' = [(''svcA'', ''1.1.1.1'')]
   \<and> ServiceHosts sampleEnv ''ns2'' = [(''svcA'', ''2.2.2.2''), (''svcB'', [])]
   \<and> dumpedHosts (setupDump2Host sampleEnv sampleWorld) =
       Some [''svcA'' \<mapsto> ''1.1.1.1'', ''svcA.ns2'' \<mapsto> ''2.2.2.2'']
   \<and> ServiceHosts headlessEnv ''ns1'' = [(''svcA'', ''None''), (''svcC'', [])]
   \<and> ServiceHosts headlessEnv ''ns2'' = [(''svcA'', ''2.2.2.2''), (''svcB'', [])]
   \<and> dumpedHosts (setupDump2Host headlessEnv sampleWorld) =
       Some [''svcC'' \<mapsto> [], ''svcA'' \<mapsto> ''None'', ''svcA.ns2'' \<mapsto> ''2.2.2.2'']
   \<and> mergedHosts headlessEnv (options sampleWorld) ''svcA'' = Some ''None''
   \<and> mergedHosts headlessEnv (options sampleWorld) ''svcC'' = Some []
   \<and> mergedHosts headlessEnv (options sampleWorld) ''svcB.ns2'' = None"
  by (simp add: setupDump2Host_def mergedHosts_def Let_def headlessEnv_def sampleEnv_def
      sampleWorld_def sampleOptions_def)

end
